theory Spec2Isabelle
  imports Main "HOL-Library.Word"
begin

unbundle bit_operations_syntax

section \<open>JavaScript values\<close>

text \<open>
  The gateway client (\<^verbatim>\<open>walrus-client.ts\<close>) and the dispatcher (the server entry
  file) are TypeScript; at run time the values they move around are untyped JavaScript
  values: what the remote service answers is whatever JSON it sent. A JavaScript string is
  modelled as a \<^typ>\<open>string\<close> (its characters are the code units below 256, which is
  what paths, URLs, headers and base64 text are made of), a \<^verbatim>\<open>Buffer\<close> as a list of
  bytes, and a number as an \<^typ>\<open>int\<close>, \<open>NaN\<close> or an infinity (the numbers of this
  program are byte counts and epochs; \<open>JNum n\<close> is the double that is the integer \<open>n\<close>,
  and what computes a number here, \<^verbatim>\<open>parseInt\<close>, rounds to a double). An object is
  the list of its properties in insertion order, with distinct keys.
\<close>

type_synonym byte = "8 word"

datatype jsval =
    JUndefined
  | JNull
  | JBool bool
  | JNum int
  | JNaN
  | JInf bool
  | JStr string
  | JArr "jsval list"
  | JObj "(string \<times> jsval) list"
  | JBuf "byte list"

text \<open>What a \<^verbatim>\<open>throw\<close> carries: an \<^verbatim>\<open>AxiosError\<close> (its message and the
  response, when the remote answered), any other \<^verbatim>\<open>Error\<close> instance (its message), or
  a value that is no \<^verbatim>\<open>Error\<close>. A function that may throw returns
  \<open>thrown + 'a\<close>, with \<open>Inl\<close> the exception.\<close>

record 'd response =
  status :: int
  data :: 'd
  headers :: "(string \<times> string) list"

datatype thrown =
    AxiosError string "jsval response option"
  | JsError string
  | Thrown jsval

definition bind :: "thrown + 'a \<Rightarrow> ('a \<Rightarrow> thrown + 'b) \<Rightarrow> thrown + 'b" where
  "bind m f = (case m of Inl x \<Rightarrow> Inl x | Inr v \<Rightarrow> f v)"

text \<open>Truthiness, as \<^verbatim>\<open>if (x)\<close>, \<^verbatim>\<open>x ? a : b\<close> and \<^verbatim>\<open>x || y\<close> test it.\<close>

fun truthy :: "jsval \<Rightarrow> bool" where
  "truthy JUndefined = False"
| "truthy JNull = False"
| "truthy (JBool b) = b"
| "truthy (JNum n) = (n \<noteq> 0)"
| "truthy JNaN = False"
| "truthy (JInf neg) = True"
| "truthy (JStr s) = (s \<noteq> [])"
| "truthy (JArr xs) = True"
| "truthy (JObj kvs) = True"
| "truthy (JBuf bs) = True"

definition js_or :: "jsval \<Rightarrow> jsval \<Rightarrow> jsval" where
  "js_or a b = (if truthy a then a else b)"

text \<open>Property access \<^verbatim>\<open>x.p\<close>, for the property names this program reads (none of
  them is a built-in property of a string, a number, an array or a buffer): reading a
  property of \<^verbatim>\<open>undefined\<close> or \<^verbatim>\<open>null\<close> throws a \<^verbatim>\<open>TypeError\<close>, with the
  message of the V8 engine.\<close>

definition type_error :: "string \<Rightarrow> string \<Rightarrow> thrown" where
  "type_error base p =
     JsError (''Cannot read properties of '' @ base @ '' (reading '' @ [CHR 0x27] @ p @ [CHR 0x27] @ '')'')"

fun get_prop :: "jsval \<Rightarrow> string \<Rightarrow> thrown + jsval" where
  "get_prop JUndefined p = Inl (type_error ''undefined'' p)"
| "get_prop JNull p = Inl (type_error ''null'' p)"
| "get_prop (JObj kvs) p = Inr (case map_of kvs p of None \<Rightarrow> JUndefined | Some v \<Rightarrow> v)"
| "get_prop v p = Inr JUndefined"

text \<open>Optional chaining \<^verbatim>\<open>x?.p\<close>: \<^verbatim>\<open>undefined\<close> when \<open>x\<close> is
  \<^verbatim>\<open>undefined\<close> or \<^verbatim>\<open>null\<close>, and never a throw.\<close>

fun opt_prop :: "jsval \<Rightarrow> string \<Rightarrow> jsval" where
  "opt_prop (JObj kvs) p = (case map_of kvs p of None \<Rightarrow> JUndefined | Some v \<Rightarrow> v)"
| "opt_prop v p = JUndefined"

subsection \<open>Numbers and strings\<close>

text \<open>The decimal text of an integer, as \<^verbatim>\<open>n.toString()\<close> and \<^verbatim>\<open>String(n)\<close>
  give it for an integer below \<open>10^21\<close> in absolute value.\<close>

fun show_nat :: "nat \<Rightarrow> string" where
  "show_nat n =
     (if n < 10 then [''0123456789'' ! n]
      else show_nat (n div 10) @ [''0123456789'' ! (n mod 10)])"

declare show_nat.simps [simp del]

definition show_int :: "int \<Rightarrow> string" where
  "show_int i = (if i < 0 then CHR ''-'' # show_nat (nat (- i)) else show_nat (nat i))"

fun join :: "string \<Rightarrow> string list \<Rightarrow> string" where
  "join sep [] = []"
| "join sep [x] = x"
| "join sep (x # y # ys) = x @ sep @ join sep (y # ys)"

text \<open>\<^verbatim>\<open>String(x)\<close>, which is also what a template literal \<^verbatim>\<open>`${x}`\<close> puts in the
  text. An array joins its elements with commas, \<^verbatim>\<open>null\<close> and \<^verbatim>\<open>undefined\<close>
  elements as the empty string; a buffer is read as text.\<close>

fun to_String :: "jsval \<Rightarrow> string" where
  "to_String JUndefined = ''undefined''"
| "to_String JNull = ''null''"
| "to_String (JBool b) = (if b then ''true'' else ''false'')"
| "to_String (JNum n) = show_int n"
| "to_String JNaN = ''NaN''"
| "to_String (JInf neg) = (if neg then ''-Infinity'' else ''Infinity'')"
| "to_String (JStr s) = s"
| "to_String (JArr xs) =
     join '','' (map (\<lambda>x. if x = JUndefined \<or> x = JNull then [] else to_String x) xs)"
| "to_String (JObj kvs) = ''[object Object]''"
| "to_String (JBuf bs) = map (\<lambda>b. char_of (unat b)) bs"

text \<open>\<^verbatim>\<open>error instanceof Error ? error.message : String(error)\<close>\<close>

fun error_text :: "thrown \<Rightarrow> string" where
  "error_text (AxiosError msg r) = msg"
| "error_text (JsError msg) = msg"
| "error_text (Thrown v) = to_String v"

text \<open>\<^verbatim>\<open>error.response?.data?.error || error.message\<close>, for an \<^verbatim>\<open>AxiosError\<close>
  with message \<open>msg\<close> and response \<open>r\<close>, as the template literal prints it.\<close>

definition remote_or_transport :: "string \<Rightarrow> jsval response option \<Rightarrow> string" where
  "remote_or_transport msg r =
     to_String (js_or (case r of None \<Rightarrow> JUndefined | Some resp \<Rightarrow> opt_prop (data resp) ''error'')
                      (JStr msg))"

text \<open>\<^verbatim>\<open>parseInt(s)\<close> with no radix: leading white space is skipped, then an
  optional sign, then \<^verbatim>\<open>0x\<close> or \<^verbatim>\<open>0X\<close> selects radix 16 (radix 10
  otherwise), then the longest run of digits of the radix is read; no digit gives
  \<^verbatim>\<open>NaN\<close>. The result is a double: the integer that the digits denote, rounded to
  the nearest integer with 53 significant bits (to the even one of two nearest), and an
  infinity from \<open>2^1024\<close> on. (Past 20 significant decimal digits ECMAScript lets an
  engine read the later digits as 0; V8, the engine of Node, rounds the exact value.)\<close>

definition is_space :: "char \<Rightarrow> bool" where
  "is_space c = (c \<in> set [CHR '' '', CHR 0x09, CHR 0x0A, CHR 0x0B, CHR 0x0C, CHR 0x0D, CHR 0xA0])"

fun index_of :: "'a \<Rightarrow> 'a list \<Rightarrow> nat option" where
  "index_of x [] = None"
| "index_of x (y # ys) = (if x = y then Some 0 else map_option Suc (index_of x ys))"

definition digit_of :: "nat \<Rightarrow> char \<Rightarrow> nat option" where
  "digit_of radix c =
     (case index_of c ''0123456789abcdefghijklmnopqrstuvwxyz'' of
        Some d \<Rightarrow> (if d < radix then Some d else None)
      | None \<Rightarrow>
          (case index_of c ''ABCDEFGHIJKLMNOPQRSTUVWXYZ'' of
             Some d \<Rightarrow> (if d + 10 < radix then Some (d + 10) else None)
           | None \<Rightarrow> None))"

fun read_digits :: "nat \<Rightarrow> string \<Rightarrow> nat list" where
  "read_digits radix [] = []"
| "read_digits radix (c # cs) =
     (case digit_of radix c of None \<Rightarrow> [] | Some d \<Rightarrow> d # read_digits radix cs)"

definition digits_value :: "nat \<Rightarrow> nat list \<Rightarrow> nat" where
  "digits_value radix ds = foldl (\<lambda>a d. a * radix + d) 0 ds"

fun bit_length :: "nat \<Rightarrow> nat" where
  "bit_length n = (if n = 0 then 0 else Suc (bit_length (n div 2)))"

declare bit_length.simps [simp del]

text \<open>The double nearest to a natural number; \<open>None\<close> is \<^verbatim>\<open>Infinity\<close>.\<close>

definition to_double :: "nat \<Rightarrow> nat option" where
  "to_double n =
     (let k = bit_length n - 53;
          q = n div 2 ^ k;
          r = n mod 2 ^ k;
          m = (if 2 ^ k < 2 * r \<or> (2 * r = 2 ^ k \<and> odd q) then q + 1 else q) * 2 ^ k
      in if m < 2 ^ 1024 then Some m else None)"

definition parseInt :: "string \<Rightarrow> jsval" where
  "parseInt s =
     (let s1 = dropWhile is_space s;
          neg = (take 1 s1 = ''-'');
          s2 = (if take 1 s1 = ''-'' \<or> take 1 s1 = ''+'' then drop 1 s1 else s1);
          hex = (take 2 s2 = ''0x'' \<or> take 2 s2 = ''0X'');
          radix = (if hex then 16 else 10);
          ds = read_digits radix (if hex then drop 2 s2 else s2)
      in if ds = [] then JNaN
         else (case to_double (digits_value radix ds) of
                 None \<Rightarrow> JInf neg
               | Some m \<Rightarrow> JNum (if neg then - int m else int m)))"

subsection \<open>Base64\<close>

text \<open>
  Modelled from the spec: the base64 codec is the Node.js runtime's
  (\<^verbatim>\<open>Buffer.from(s, 'base64')\<close> and \<^verbatim>\<open>buf.toString('base64')\<close>), not code
  of this repository. The spec has \<^verbatim>\<open>store\<close> decode "a base64-encoded byte string
  into a raw byte buffer" with a lenient decoder that tolerates invalid characters, and
  \<^verbatim>\<open>fetch\<close> return the bytes "as base64 text". The decoder below is the runtime's:
  a character outside the alphabet (the URL-safe \<^verbatim>\<open>-\<close> and \<^verbatim>\<open>_\<close> belong to
  it) is skipped, decoding stops at the first \<^verbatim>\<open>=\<close>, four sextets give three
  bytes, and a last group of two or three sextets gives one or two bytes. No input makes it
  throw.
\<close>

definition base64_table :: string where
  "base64_table = ''ABCDEFGHIJKLMNOPQRSTUVWXYZabcdefghijklmnopqrstuvwxyz0123456789+/''"

definition unbase64 :: "char \<Rightarrow> byte option" where
  "unbase64 c =
     (if c = CHR ''-'' then Some 62
      else if c = CHR ''_'' then Some 63
      else map_option of_nat (index_of c base64_table))"

fun sextets :: "string \<Rightarrow> byte list" where
  "sextets [] = []"
| "sextets (c # cs) =
     (if c = CHR ''='' then []
      else (case unbase64 c of None \<Rightarrow> sextets cs | Some v \<Rightarrow> v # sextets cs))"

fun decode_groups :: "byte list \<Rightarrow> byte list" where
  "decode_groups (a # b # c # d # rest) =
     (push_bit 2 (a AND 0x3F) OR drop_bit 4 (b AND 0x30))
     # (push_bit 4 (b AND 0x0F) OR drop_bit 2 (c AND 0x3C))
     # (push_bit 6 (c AND 0x03) OR (d AND 0x3F))
     # decode_groups rest"
| "decode_groups [a, b, c] =
     [push_bit 2 (a AND 0x3F) OR drop_bit 4 (b AND 0x30),
      push_bit 4 (b AND 0x0F) OR drop_bit 2 (c AND 0x3C)]"
| "decode_groups [a, b] = [push_bit 2 (a AND 0x3F) OR drop_bit 4 (b AND 0x30)]"
| "decode_groups [a] = []"
| "decode_groups [] = []"

definition base64_decode :: "string \<Rightarrow> byte list" where
  "base64_decode s = decode_groups (sextets s)"

definition b64_char :: "byte \<Rightarrow> char" where
  "b64_char v = base64_table ! unat (v AND 0x3F)"

fun base64_encode :: "byte list \<Rightarrow> string" where
  "base64_encode (a # b # c # rest) =
     b64_char (drop_bit 2 a)
     # b64_char (push_bit 4 (a AND 0x03) OR drop_bit 4 b)
     # b64_char (push_bit 2 (b AND 0x0F) OR drop_bit 6 c)
     # b64_char (c AND 0x3F)
     # base64_encode rest"
| "base64_encode [a, b] =
     [b64_char (drop_bit 2 a),
      b64_char (push_bit 4 (a AND 0x03) OR drop_bit 4 b),
      b64_char (push_bit 2 (b AND 0x0F)),
      CHR ''='']"
| "base64_encode [a] =
     [b64_char (drop_bit 2 a), b64_char (push_bit 4 (a AND 0x03)), CHR ''='', CHR ''='']"
| "base64_encode [] = []"

text \<open>The bytes of a text, one per character.\<close>

definition bytes_of :: "string \<Rightarrow> byte list" where
  "bytes_of s = map of_char s"

subsection \<open>\<^verbatim>\<open>JSON.stringify(v, null, 2)\<close>\<close>

fun quote_char :: "char \<Rightarrow> string" where
  "quote_char c =
     (if c = CHR 0x22 then [CHR 0x5C, CHR 0x22]
      else if c = CHR 0x5C then [CHR 0x5C, CHR 0x5C]
      else if c = CHR 0x08 then [CHR 0x5C, CHR ''b'']
      else if c = CHR 0x0C then [CHR 0x5C, CHR ''f'']
      else if c = CHR 0x0A then [CHR 0x5C, CHR ''n'']
      else if c = CHR 0x0D then [CHR 0x5C, CHR ''r'']
      else if c = CHR 0x09 then [CHR 0x5C, CHR ''t'']
      else if (of_char c :: nat) < 32
        then [CHR 0x5C, CHR ''u'', CHR ''0'', CHR ''0'',
              ''0123456789abcdef'' ! (of_char c div 16), ''0123456789abcdef'' ! (of_char c mod 16)]
      else [c])"

definition quote :: "string \<Rightarrow> string" where
  "quote s = [CHR 0x22] @ concat (map quote_char s) @ [CHR 0x22]"

text \<open>The text of an array or object from the texts of its members, at indentation
  \<open>ind\<close>: \<open>opn\<close> and \<open>cls\<close> are the brackets.\<close>

definition wrap_members :: "string \<Rightarrow> string \<Rightarrow> string \<Rightarrow> string list \<Rightarrow> string" where
  "wrap_members opn cls ind ms =
     (if ms = [] then opn @ cls
      else opn @ [CHR 0x0A] @ ind @ ''  '' @ join ('','' @ [CHR 0x0A] @ ind @ ''  '') ms
           @ [CHR 0x0A] @ ind @ cls)"

text \<open>\<open>None\<close> is \<^verbatim>\<open>undefined\<close>: a property with no text is left out of its
  object, and is \<^verbatim>\<open>null\<close> in an array. A buffer prints as its \<^verbatim>\<open>toJSON()\<close>.\<close>

fun stringify :: "string \<Rightarrow> jsval \<Rightarrow> string option" where
  "stringify ind JUndefined = None"
| "stringify ind JNull = Some ''null''"
| "stringify ind (JBool b) = Some (if b then ''true'' else ''false'')"
| "stringify ind (JNum n) = Some (show_int n)"
| "stringify ind JNaN = Some ''null''"
| "stringify ind (JInf neg) = Some ''null''"
| "stringify ind (JStr s) = Some (quote s)"
| "stringify ind (JArr xs) =
     Some (wrap_members ''['' '']'' ind
       (map (\<lambda>x. case stringify (ind @ ''  '') x of None \<Rightarrow> ''null'' | Some t \<Rightarrow> t) xs))"
| "stringify ind (JObj kvs) =
     Some (wrap_members ''{'' ''}'' ind
       (concat (map (\<lambda>kv. case stringify (ind @ ''  '') (snd kv) of
                             None \<Rightarrow> []
                           | Some t \<Rightarrow> [quote (fst kv) @ '': '' @ t]) kvs)))"
| "stringify ind (JBuf bs) =
     Some (wrap_members ''{'' ''}'' ind
       [quote ''type'' @ '': '' @ quote ''Buffer'',
        quote ''data'' @ '': '' @ wrap_members ''['' '']'' (ind @ ''  '') (map (\<lambda>b. show_int (uint b)) bs)])"

text \<open>The dispatcher calls \<^verbatim>\<open>JSON.stringify\<close> on objects and arrays only, which always
  have a text.\<close>

definition JSON_stringify :: "jsval \<Rightarrow> string" where
  "JSON_stringify v = (case stringify [] v of None \<Rightarrow> [] | Some t \<Rightarrow> t)"

section \<open>The gateway client\<close>

subsection \<open>The world outside\<close>

text \<open>
  The file system and the HTTP client are collaborators of the client: \<open>env\<close> says how
  each call ends. \<^verbatim>\<open>fs.readFile(path)\<close> resolves with the bytes of the file or rejects;
  \<^verbatim>\<open>httpClient.put(url, body, {params: {epochs}})\<close>, \<^verbatim>\<open>get\<close> and \<^verbatim>\<open>head\<close>
  resolve with a response or reject. Each operation returns, with its result, the calls
  it made, in order.

  \<^verbatim>\<open>get\<close> is called with \<^verbatim>\<open>responseType: 'arraybuffer'\<close>: the body of the
  answer is then handed over as a buffer, never parsed, and that holds for the response
  that an \<^verbatim>\<open>AxiosError\<close> carries as well. So a read request fails with an
  \<^verbatim>\<open>AxiosError\<close> whose response, when there is one, has bytes for its body, with
  another \<^verbatim>\<open>Error\<close>, or with a thrown value; \<open>thrown_by_get\<close> is what the
  \<^verbatim>\<open>catch\<close> block then sees.
\<close>

datatype get_failure =
    GetAxiosError string "(byte list) response option"
  | GetError string
  | GetThrown jsval

definition buffer_body :: "(byte list) response \<Rightarrow> jsval response" where
  "buffer_body r = \<lparr>status = status r, data = JBuf (data r), headers = headers r\<rparr>"

fun thrown_by_get :: "get_failure \<Rightarrow> thrown" where
  "thrown_by_get (GetAxiosError msg r) = AxiosError msg (map_option buffer_body r)"
| "thrown_by_get (GetError m) = JsError m"
| "thrown_by_get (GetThrown v) = Thrown v"

record env =
  fs_readFile :: "string \<Rightarrow> thrown + byte list"
  http_put :: "string \<Rightarrow> byte list \<Rightarrow> string \<Rightarrow> thrown + jsval response"
  http_get :: "string \<Rightarrow> get_failure + (byte list) response"
  http_head :: "string \<Rightarrow> thrown + jsval response"

datatype effect =
    ReadFile string
  | HttpPut string "byte list" string
  | HttpGet string
  | HttpHead string
  | ConsoleWarn string

subsection \<open>Configuration\<close>

record WalrusConfig =
  aggregatorUrl :: string
  publisherUrl :: string
  systemObject :: string
  wallet :: "string option"

text \<open>\<^verbatim>\<open>Partial<WalrusConfig>\<close>: every field may be missing.\<close>

record PartialWalrusConfig =
  aggregatorUrl_given :: "string option"
  publisherUrl_given :: "string option"
  systemObject_given :: "string option"
  wallet_given :: "string option"

text \<open>\<^verbatim>\<open>a || b\<close> on values that are a string or \<^verbatim>\<open>undefined\<close>: the empty string
  is falsy, as \<^verbatim>\<open>undefined\<close> is.\<close>

definition truthy_opt :: "string option \<Rightarrow> bool" where
  "truthy_opt a = (case a of Some s \<Rightarrow> s \<noteq> [] | None \<Rightarrow> False)"

definition or_else :: "string option \<Rightarrow> string option \<Rightarrow> string option" where
  "or_else a b = (if truthy_opt a then a else b)"

definition or_default :: "string option \<Rightarrow> string \<Rightarrow> string" where
  "or_default a d = (case a of Some s \<Rightarrow> (if s \<noteq> [] then s else d) | None \<Rightarrow> d)"

text \<open>\<^verbatim>\<open>config?.field\<close>\<close>

definition given :: "PartialWalrusConfig option \<Rightarrow> (PartialWalrusConfig \<Rightarrow> string option) \<Rightarrow> string option" where
  "given cfg field = (case cfg of None \<Rightarrow> None | Some c \<Rightarrow> field c)"

text \<open>
  Objects live in a store: an address is an index in the list of the objects allocated so
  far, and \<^verbatim>\<open>this.config\<close> holds the address of the client's configuration object. The
  only objects of the store are configuration objects: no other object of the program is
  shared or written to.
\<close>

type_synonym heap = "WalrusConfig list"

record WalrusClient =
  config :: nat

text \<open>The object literal of the constructor, given the optional override and
  \<^verbatim>\<open>process.env\<close>.\<close>

definition initial_config :: "PartialWalrusConfig option \<Rightarrow> (string \<times> string) list \<Rightarrow> WalrusConfig" where
  "initial_config cfg penv =
     \<lparr>aggregatorUrl =
        or_default (or_else (given cfg aggregatorUrl_given) (map_of penv ''WALRUS_AGGREGATOR_URL''))
          ''https://aggregator-devnet.walrus.space'',
      publisherUrl =
        or_default (or_else (given cfg publisherUrl_given) (map_of penv ''WALRUS_PUBLISHER_URL''))
          ''https://publisher-devnet.walrus.space'',
      systemObject =
        or_default (or_else (given cfg systemObject_given) (map_of penv ''WALRUS_SYSTEM_OBJECT''))
          ''0x37c0e4d7b36a2f64d51bba262a1791f844cfd88f19c35b5ca709e1a6991e90dc'',
      wallet = or_else (given cfg wallet_given) (map_of penv ''WALRUS_WALLET_PATH'')\<rparr>"

text \<open>The constructor allocates that object in the store and keeps its address.\<close>

definition WalrusClient_new ::
  "heap \<Rightarrow> PartialWalrusConfig option \<Rightarrow> (string \<times> string) list \<Rightarrow> WalrusClient \<times> heap" where
  "WalrusClient_new h cfg penv = (\<lparr>config = length h\<rparr>, h @ [initial_config cfg penv])"

text \<open>\<^verbatim>\<open>getConfig\<close> returns \<^verbatim>\<open>{ ...this.config }\<close>: a new object with the same
  fields.\<close>

definition getConfig :: "heap \<Rightarrow> WalrusClient \<Rightarrow> (thrown + nat) \<times> heap" where
  "getConfig h c = (Inr (length h), h @ [h ! config c])"

subsection \<open>store\<close>

record BlobInfo =
  blobId :: jsval
  size' :: jsval
  encodedSize :: jsval
  storageId :: jsval
  certified :: bool
  certifiedEpoch :: jsval
  endEpoch :: jsval

definition startsWith :: "string \<Rightarrow> string \<Rightarrow> bool" where
  "startsWith s p = (take (length p) s = p)"

definition is_file_path :: "string \<Rightarrow> bool" where
  "is_file_path d = (startsWith d ''/'' \<or> startsWith d ''./'' \<or> startsWith d ''../'')"

text \<open>The \<^verbatim>\<open>blobData\<close> of \<^verbatim>\<open>storeBlob\<close>: the bytes of the file, or the decoded
  text.\<close>

definition blobData :: "env \<Rightarrow> string \<Rightarrow> effect list \<times> (thrown + byte list)" where
  "blobData e d =
     (if is_file_path d then ([ReadFile d], fs_readFile e d)
      else ([], Inr (base64_decode d)))"

text \<open>The \<^verbatim>\<open>newlyCreated\<close> branch: every field of the object literal is read in
  turn, and the first read that throws ends it.\<close>

definition from_newlyCreated :: "jsval \<Rightarrow> thrown + BlobInfo" where
  "from_newlyCreated nc =
     bind (get_prop nc ''blobObject'') (\<lambda>bo.
     bind (get_prop bo ''blobId'') (\<lambda>bid.
     bind (get_prop bo ''size'') (\<lambda>sz.
     bind (get_prop bo ''encodedSize'') (\<lambda>esz.
     bind (get_prop bo ''id'') (\<lambda>sid.
     bind (get_prop nc ''resourceObject'') (\<lambda>ro.
       Inr \<lparr>blobId = bid, size' = sz, encodedSize = esz, storageId = sid,
            certified = truthy ro,
            certifiedEpoch = opt_prop (opt_prop ro ''storage'') ''startEpoch'',
            endEpoch = opt_prop (opt_prop ro ''storage'') ''endEpoch''\<rparr>))))))"

definition from_alreadyCertified :: "jsval \<Rightarrow> thrown + BlobInfo" where
  "from_alreadyCertified ac =
     bind (get_prop ac ''blobId'') (\<lambda>bid.
     bind (get_prop ac ''certifiedEpoch'') (\<lambda>ce.
     bind (get_prop ac ''endEpoch'') (\<lambda>ee.
       Inr \<lparr>blobId = bid, size' = JNum 0, encodedSize = JNum 0, storageId = bid,
            certified = True, certifiedEpoch = ce, endEpoch = ee\<rparr>)))"

text \<open>What \<^verbatim>\<open>storeBlob\<close> makes of \<^verbatim>\<open>response.data\<close>: the two branches and the
  \<^verbatim>\<open>throw\<close> after them.\<close>

definition from_reply :: "jsval \<Rightarrow> thrown + BlobInfo" where
  "from_reply d =
     bind (get_prop d ''newlyCreated'') (\<lambda>nc.
       if truthy nc then from_newlyCreated nc
       else bind (get_prop d ''alreadyCertified'') (\<lambda>ac.
         if truthy ac then from_alreadyCertified ac
         else Inl (JsError ''Unexpected response format from Walrus publisher'')))"

text \<open>The \<^verbatim>\<open>try\<close> block of \<^verbatim>\<open>storeBlob\<close>.\<close>

definition storeBlob_try ::
  "heap \<Rightarrow> WalrusClient \<Rightarrow> env \<Rightarrow> string \<Rightarrow> int \<Rightarrow> effect list \<times> (thrown + BlobInfo)" where
  "storeBlob_try h c e d epochs =
     (case blobData e d of
        (t, Inl x) \<Rightarrow> (t, Inl x)
      | (t, Inr b) \<Rightarrow>
          (let url = publisherUrl (h ! config c) @ ''/v1/store'' in
           (t @ [HttpPut url b (show_int epochs)],
            bind (http_put e url b (show_int epochs)) (\<lambda>r. from_reply (data r)))))"

text \<open>Its \<^verbatim>\<open>catch\<close> block.\<close>

definition storeBlob_catch :: "thrown \<Rightarrow> thrown" where
  "storeBlob_catch x =
     (case x of
        AxiosError msg r \<Rightarrow> JsError (''Failed to store blob: '' @ remote_or_transport msg r)
      | _ \<Rightarrow> JsError (''Failed to store blob: '' @ error_text x))"

definition storeBlob ::
  "heap \<Rightarrow> WalrusClient \<Rightarrow> env \<Rightarrow> string \<Rightarrow> int option \<Rightarrow> effect list \<times> (thrown + BlobInfo)" where
  "storeBlob h c e d epochs =
     (case storeBlob_try h c e d (case epochs of None \<Rightarrow> 5 | Some n \<Rightarrow> n) of
        (t, Inl x) \<Rightarrow> (t, Inl (storeBlob_catch x))
      | (t, Inr b) \<Rightarrow> (t, Inr b))"

subsection \<open>fetch\<close>

definition getBlob_catch :: "string \<Rightarrow> thrown \<Rightarrow> thrown" where
  "getBlob_catch bid x =
     (case x of
        AxiosError msg r \<Rightarrow>
          (if map_option status r = Some 404 then JsError (''Blob not found: '' @ bid)
           else JsError (''Failed to retrieve blob: '' @ remote_or_transport msg r))
      | _ \<Rightarrow> JsError (''Failed to retrieve blob: '' @ error_text x))"

definition getBlob :: "heap \<Rightarrow> WalrusClient \<Rightarrow> env \<Rightarrow> string \<Rightarrow> effect list \<times> (thrown + string)" where
  "getBlob h c e bid =
     (let url = aggregatorUrl (h ! config c) @ ''/v1/'' @ bid in
      ([HttpGet url],
       (case http_get e url of
          Inl x \<Rightarrow> Inl (getBlob_catch bid (thrown_by_get x))
        | Inr r \<Rightarrow> Inr (base64_encode (data r)))))"

subsection \<open>inspect\<close>

definition getBlobInfo_catch :: "string \<Rightarrow> thrown \<Rightarrow> thrown" where
  "getBlobInfo_catch bid x =
     (case x of
        AxiosError msg r \<Rightarrow>
          (if map_option status r = Some 404 then JsError (''Blob not found: '' @ bid)
           else JsError (''Failed to get blob info: '' @ remote_or_transport msg r))
      | _ \<Rightarrow> JsError (''Failed to get blob info: '' @ error_text x))"

text \<open>\<^verbatim>\<open>response.headers['content-length'] || '0'\<close>\<close>

definition content_length :: "(string \<times> string) list \<Rightarrow> string" where
  "content_length hs = or_default (map_of hs ''content-length'') ''0''"

definition getBlobInfo :: "heap \<Rightarrow> WalrusClient \<Rightarrow> env \<Rightarrow> string \<Rightarrow> effect list \<times> (thrown + BlobInfo)" where
  "getBlobInfo h c e bid =
     (let url = aggregatorUrl (h ! config c) @ ''/v1/'' @ bid in
      ([HttpHead url],
       (case http_head e url of
          Inl x \<Rightarrow> Inl (getBlobInfo_catch bid x)
        | Inr r \<Rightarrow>
            (let sz = parseInt (content_length (headers r)) in
             Inr \<lparr>blobId = JStr bid, size' = sz, encodedSize = sz, storageId = JStr bid,
                  certified = True, certifiedEpoch = JUndefined, endEpoch = JUndefined\<rparr>))))"

subsection \<open>list, delete, network status\<close>

definition listBlobs :: "int option \<Rightarrow> effect list \<times> (thrown + string list)" where
  "listBlobs limit =
     ([ConsoleWarn ''listBlobs: Walrus does not provide native blob listing. Consider maintaining a local index.''],
      Inr [])"

record DeleteOutcome =
  success :: bool
  message :: string

text \<open>\<^verbatim>\<open>deleteBlob\<close> has one statement, the \<^verbatim>\<open>return\<close> of an object literal.\<close>

definition deleteBlob :: "string \<Rightarrow> thrown + DeleteOutcome" where
  "deleteBlob bid =
     Inr \<lparr>success = False,
          message = ''Walrus blobs cannot be manually deleted. They will expire automatically based on their storage epochs.''\<rparr>"

record NetworkStatus =
  epoch :: int
  networkSize :: int
  totalStored :: int
  availableStorage :: int

definition getNetworkStatus :: "thrown + NetworkStatus" where
  "getNetworkStatus =
     Inr \<lparr>epoch = 1, networkSize = 100, totalStored = 1000000, availableStorage = 10000000\<rparr>"

section \<open>The dispatcher\<close>

subsection \<open>Argument schemas\<close>

text \<open>
  The schemas are \<^verbatim>\<open>zod\<close> objects; \<^verbatim>\<open>Schema.parse(args)\<close> returns the parsed
  fields or throws a \<^verbatim>\<open>ZodError\<close>, an \<^verbatim>\<open>Error\<close> whose message is the JSON text
  of its issues. An issue of a value of the wrong type has the fields below (the library's
  version 3); a missing value is \<^verbatim>\<open>Required\<close>. Keys that the schema does not name
  are dropped.
\<close>

fun zod_type :: "jsval \<Rightarrow> string" where
  "zod_type JUndefined = ''undefined''"
| "zod_type JNull = ''null''"
| "zod_type (JBool b) = ''boolean''"
| "zod_type (JNum n) = ''number''"
| "zod_type JNaN = ''nan''"
| "zod_type (JInf neg) = ''number''"
| "zod_type (JStr s) = ''string''"
| "zod_type (JArr xs) = ''array''"
| "zod_type (JObj kvs) = ''object''"
| "zod_type (JBuf bs) = ''object''"

definition invalid_type :: "string \<Rightarrow> jsval \<Rightarrow> string list \<Rightarrow> jsval" where
  "invalid_type expected v path =
     JObj [(''code'', JStr ''invalid_type''),
           (''expected'', JStr expected),
           (''received'', JStr (zod_type v)),
           (''path'', JArr (map JStr path)),
           (''message'', JStr (if v = JUndefined then ''Required''
                               else ''Expected '' @ expected @ '', received '' @ zod_type v))]"

definition ZodError :: "jsval list \<Rightarrow> thrown" where
  "ZodError issues = JsError (JSON_stringify (JArr issues))"

text \<open>\<^verbatim>\<open>z.string()\<close> and \<^verbatim>\<open>z.number().optional()\<close> at a key: the issues of a
  value.\<close>

definition z_string :: "string \<Rightarrow> jsval \<Rightarrow> jsval list" where
  "z_string k v = (case v of JStr s \<Rightarrow> [] | _ \<Rightarrow> [invalid_type ''string'' v [k]])"

definition z_number_optional :: "string \<Rightarrow> jsval \<Rightarrow> jsval list" where
  "z_number_optional k v =
     (case v of JUndefined \<Rightarrow> [] | JNum n \<Rightarrow> [] | _ \<Rightarrow> [invalid_type ''number'' v [k]])"

text \<open>\<^verbatim>\<open>z.object({data: z.string(), epochs: z.number().optional()})\<close>\<close>

definition StoreBlobSchema_parse :: "jsval \<Rightarrow> thrown + (string \<times> int option)" where
  "StoreBlobSchema_parse args =
     (if zod_type args \<noteq> ''object'' then Inl (ZodError [invalid_type ''object'' args []])
      else (case (opt_prop args ''data'', opt_prop args ''epochs'') of
              (JStr s, JUndefined) \<Rightarrow> Inr (s, None)
            | (JStr s, JNum n) \<Rightarrow> Inr (s, Some n)
            | (d, ep) \<Rightarrow> Inl (ZodError (z_string ''data'' d @ z_number_optional ''epochs'' ep))))"

text \<open>\<^verbatim>\<open>z.object({blobId: z.string()})\<close>: \<^verbatim>\<open>GetBlobSchema\<close>,
  \<^verbatim>\<open>DeleteBlobSchema\<close> and \<^verbatim>\<open>GetBlobInfoSchema\<close> are this one schema.\<close>

definition BlobIdSchema_parse :: "jsval \<Rightarrow> thrown + string" where
  "BlobIdSchema_parse args =
     (if zod_type args \<noteq> ''object'' then Inl (ZodError [invalid_type ''object'' args []])
      else (case opt_prop args ''blobId'' of
              JStr s \<Rightarrow> Inr s
            | v \<Rightarrow> Inl (ZodError (z_string ''blobId'' v))))"

text \<open>\<^verbatim>\<open>z.object({limit: z.number().optional()})\<close>\<close>

definition ListBlobsSchema_parse :: "jsval \<Rightarrow> thrown + int option" where
  "ListBlobsSchema_parse args =
     (if zod_type args \<noteq> ''object'' then Inl (ZodError [invalid_type ''object'' args []])
      else (case opt_prop args ''limit'' of
              JUndefined \<Rightarrow> Inr None
            | JNum n \<Rightarrow> Inr (Some n)
            | v \<Rightarrow> Inl (ZodError (z_number_optional ''limit'' v))))"

subsection \<open>Results as JSON\<close>

definition BlobInfo_json :: "BlobInfo \<Rightarrow> jsval" where
  "BlobInfo_json b =
     JObj [(''blobId'', blobId b), (''size'', size' b), (''encodedSize'', encodedSize b),
           (''storageId'', storageId b), (''certified'', JBool (certified b)),
           (''certifiedEpoch'', certifiedEpoch b), (''endEpoch'', endEpoch b)]"

definition DeleteOutcome_json :: "DeleteOutcome \<Rightarrow> jsval" where
  "DeleteOutcome_json r = JObj [(''success'', JBool (success r)), (''message'', JStr (message r))]"

definition NetworkStatus_json :: "NetworkStatus \<Rightarrow> jsval" where
  "NetworkStatus_json n =
     JObj [(''epoch'', JNum (epoch n)), (''networkSize'', JNum (networkSize n)),
           (''totalStored'', JNum (totalStored n)), (''availableStorage'', JNum (availableStorage n))]"

definition WalrusConfig_json :: "WalrusConfig \<Rightarrow> jsval" where
  "WalrusConfig_json w =
     JObj [(''aggregatorUrl'', JStr (aggregatorUrl w)), (''publisherUrl'', JStr (publisherUrl w)),
           (''systemObject'', JStr (systemObject w)),
           (''wallet'', (case wallet w of None \<Rightarrow> JUndefined | Some p \<Rightarrow> JStr p))]"

subsection \<open>Tool calls\<close>

record TextContent =
  type' :: string
  text' :: string

record CallToolResult =
  content :: "TextContent list"
  isError :: "bool option"

definition text_result :: "string \<Rightarrow> CallToolResult" where
  "text_result t = \<lparr>content = [\<lparr>type' = ''text'', text' = t\<rparr>], isError = None\<rparr>"

text \<open>The \<^verbatim>\<open>try\<close> block of the \<^verbatim>\<open>CallToolRequestSchema\<close> handler: the
  \<^verbatim>\<open>switch\<close> on the tool's name.\<close>

definition call_tool_try ::
  "heap \<Rightarrow> WalrusClient \<Rightarrow> env \<Rightarrow> string \<Rightarrow> jsval \<Rightarrow> effect list \<times> (thrown + CallToolResult)" where
  "call_tool_try h c e name args =
     (if name = ''store_blob'' then
        (case StoreBlobSchema_parse args of
           Inl x \<Rightarrow> ([], Inl x)
         | Inr (d, epochs) \<Rightarrow>
             (case storeBlob h c e d (Some (case epochs of None \<Rightarrow> 5 | Some n \<Rightarrow> n)) of
                (t, Inl x) \<Rightarrow> (t, Inl x)
              | (t, Inr result) \<Rightarrow> (t, Inr (text_result (JSON_stringify (BlobInfo_json result))))))
      else if name = ''get_blob'' then
        (case BlobIdSchema_parse args of
           Inl x \<Rightarrow> ([], Inl x)
         | Inr bid \<Rightarrow>
             (case getBlob h c e bid of
                (t, Inl x) \<Rightarrow> (t, Inl x)
              | (t, Inr result) \<Rightarrow> (t, Inr (text_result result))))
      else if name = ''list_blobs'' then
        (case ListBlobsSchema_parse args of
           Inl x \<Rightarrow> ([], Inl x)
         | Inr limit \<Rightarrow>
             (case listBlobs (Some (case limit of None \<Rightarrow> 10 | Some n \<Rightarrow> n)) of
                (t, Inl x) \<Rightarrow> (t, Inl x)
              | (t, Inr result) \<Rightarrow> (t, Inr (text_result (JSON_stringify (JArr (map JStr result)))))))
      else if name = ''delete_blob'' then
        (case BlobIdSchema_parse args of
           Inl x \<Rightarrow> ([], Inl x)
         | Inr bid \<Rightarrow>
             (case deleteBlob bid of
                Inl x \<Rightarrow> ([], Inl x)
              | Inr result \<Rightarrow> ([], Inr (text_result (JSON_stringify (DeleteOutcome_json result))))))
      else if name = ''get_blob_info'' then
        (case BlobIdSchema_parse args of
           Inl x \<Rightarrow> ([], Inl x)
         | Inr bid \<Rightarrow>
             (case getBlobInfo h c e bid of
                (t, Inl x) \<Rightarrow> (t, Inl x)
              | (t, Inr result) \<Rightarrow> (t, Inr (text_result (JSON_stringify (BlobInfo_json result))))))
      else ([], Inl (JsError (''Unknown tool: '' @ name))))"

text \<open>The handler: the \<^verbatim>\<open>catch\<close> block returns the error envelope.\<close>

definition call_tool ::
  "heap \<Rightarrow> WalrusClient \<Rightarrow> env \<Rightarrow> string \<Rightarrow> jsval \<Rightarrow> effect list \<times> (thrown + CallToolResult)" where
  "call_tool h c e name args =
     (case call_tool_try h c e name args of
        (t, Inl x) \<Rightarrow>
          (t, Inr \<lparr>content = [\<lparr>type' = ''text'', text' = ''Error: '' @ error_text x\<rparr>],
                   isError = Some True\<rparr>)
      | (t, Inr r) \<Rightarrow> (t, Inr r))"

subsection \<open>Resource reads\<close>

record ResourceContents =
  uri :: string
  mimeType :: string
  resource_text :: string

record ReadResourceResult =
  contents :: "ResourceContents list"

definition read_resource_try ::
  "heap \<Rightarrow> WalrusClient \<Rightarrow> string \<Rightarrow> (thrown + ReadResourceResult) \<times> heap" where
  "read_resource_try h c u =
     (if u = ''walrus://status'' then
        (case getNetworkStatus of
           Inl x \<Rightarrow> (Inl x, h)
         | Inr st \<Rightarrow>
             (Inr \<lparr>contents = [\<lparr>uri = u, mimeType = ''application/json'',
                                 resource_text = JSON_stringify (NetworkStatus_json st)\<rparr>]\<rparr>, h))
      else if u = ''walrus://config'' then
        (case getConfig h c of
           (Inl x, h') \<Rightarrow> (Inl x, h')
         | (Inr a, h') \<Rightarrow>
             (Inr \<lparr>contents = [\<lparr>uri = u, mimeType = ''application/json'',
                                 resource_text = JSON_stringify (WalrusConfig_json (h' ! a))\<rparr>]\<rparr>, h'))
      else (Inl (JsError (''Unknown resource: '' @ u)), h))"

text \<open>The handler: the \<^verbatim>\<open>catch\<close> block throws again.\<close>

definition read_resource ::
  "heap \<Rightarrow> WalrusClient \<Rightarrow> string \<Rightarrow> (thrown + ReadResourceResult) \<times> heap" where
  "read_resource h c u =
     (case read_resource_try h c u of
        (Inl x, h') \<Rightarrow> (Inl (JsError (''Failed to read resource '' @ u @ '': '' @ error_text x)), h')
      | (Inr r, h') \<Rightarrow> (Inr r, h'))"

subsection \<open>The process\<close>

datatype request = CallToolRequest string jsval | ReadResourceRequest string

datatype reply = CallToolReply CallToolResult | ReadResourceReply ReadResourceResult | ErrorReply string

text \<open>
  Modelled from the spec: the request loop is the protocol library's
  (\<^verbatim>\<open>Server.setRequestHandler\<close> and the transport), not code of this repository.
  The spec has it process "one invocation at a time", and a fault of a handler
  "terminating that single request but not the process": the fault is answered with an
  error reply that carries its message, and the loop goes on with the next request. A
  request comes with the world it finds.
\<close>

definition handle :: "heap \<Rightarrow> WalrusClient \<Rightarrow> env \<Rightarrow> request \<Rightarrow> reply \<times> heap" where
  "handle h c e rq =
     (case rq of
        CallToolRequest name args \<Rightarrow>
          (case snd (call_tool h c e name args) of
             Inl x \<Rightarrow> (ErrorReply (error_text x), h)
           | Inr r \<Rightarrow> (CallToolReply r, h))
      | ReadResourceRequest u \<Rightarrow>
          (case read_resource h c u of
             (Inl x, h') \<Rightarrow> (ErrorReply (error_text x), h')
           | (Inr r, h') \<Rightarrow> (ReadResourceReply r, h')))"

fun serve :: "heap \<Rightarrow> WalrusClient \<Rightarrow> (env \<times> request) list \<Rightarrow> reply list \<times> heap" where
  "serve h c [] = ([], h)"
| "serve h c ((e, rq) # rest) =
     (case handle h c e rq of
        (rp, h') \<Rightarrow> (case serve h' c rest of (rps, h'') \<Rightarrow> (rp # rps, h'')))"

text \<open>
  The module creates its client with no override (\<^verbatim>\<open>new WalrusClient()\<close>), and
  \<^verbatim>\<open>main\<close> connects the transport: the process exits with code 1 when that fails,
  and serves requests otherwise.
\<close>

datatype process = Exited int | Serving "reply list"

definition main :: "(string \<times> string) list \<Rightarrow> thrown + unit \<Rightarrow> (env \<times> request) list \<Rightarrow> process" where
  "main penv connect rqs =
     (case WalrusClient_new [] None penv of
        (c, h) \<Rightarrow> (case connect of Inl x \<Rightarrow> Exited 1 | Inr u \<Rightarrow> Serving (fst (serve h c rqs))))"

subsection \<open>Callers of \<^verbatim>\<open>getConfig\<close>\<close>

text \<open>
  What the code that holds the client can do with its configuration: \<^verbatim>\<open>config\<close> is a
  private field, so a caller reaches configuration objects only through
  \<^verbatim>\<open>getConfig\<close>. A caller calls \<^verbatim>\<open>getConfig\<close> and keeps the object it returns, or
  writes to one of the objects it has kept (\<open>Mutate k v\<close> leaves the \<open>k\<close>-th of them
  with the fields of \<open>v\<close>). The state is the store and the addresses the caller holds.
\<close>

datatype caller_step = CallGetConfig | Mutate nat WalrusConfig

fun run_caller :: "WalrusClient \<Rightarrow> caller_step list \<Rightarrow> heap \<times> nat list \<Rightarrow> heap \<times> nat list" where
  "run_caller c [] st = st"
| "run_caller c (CallGetConfig # steps) (h, held) =
     (case getConfig h c of
        (Inl x, h') \<Rightarrow> run_caller c steps (h', held)
      | (Inr a, h') \<Rightarrow> run_caller c steps (h', held @ [a]))"
| "run_caller c (Mutate k v # steps) (h, held) =
     (if k < length held then run_caller c steps (h[held ! k := v], held)
      else run_caller c steps (h, held))"

section \<open>Example worlds\<close>

text \<open>The client of the server module, built with no override in an empty environment,
  and worlds in which the publisher answers every write with one reply or fails it with
  one error, or the aggregator every read with one outcome; every other call fails.\<close>

definition default_heap :: heap where
  "default_heap = snd (WalrusClient_new [] None [])"

definition default_client :: WalrusClient where
  "default_client = fst (WalrusClient_new [] None [])"

definition offline :: env where
  "offline =
     \<lparr>fs_readFile = (\<lambda>p. Inl (JsError ''ENOENT: no such file or directory'')),
      http_put = (\<lambda>u b ep. Inl (AxiosError ''Network Error'' None)),
      http_get = (\<lambda>u. Inl (GetAxiosError ''Network Error'' None)),
      http_head = (\<lambda>u. Inl (AxiosError ''Network Error'' None))\<rparr>"

definition publisher_answers :: "jsval \<Rightarrow> env" where
  "publisher_answers reply =
     offline\<lparr>http_put := (\<lambda>u b ep. Inr \<lparr>status = 200, data = reply, headers = []\<rparr>)\<rparr>"

definition with_file :: "string \<Rightarrow> byte list \<Rightarrow> env \<Rightarrow> env" where
  "with_file p bs e = e\<lparr>fs_readFile := (\<lambda>q. if q = p then Inr bs else fs_readFile e q)\<rparr>"

definition publisher_rejects :: "thrown \<Rightarrow> env" where
  "publisher_rejects x = offline\<lparr>http_put := (\<lambda>u b ep. Inl x)\<rparr>"

definition aggregator_get :: "get_failure + (byte list) response \<Rightarrow> env" where
  "aggregator_get outcome = offline\<lparr>http_get := (\<lambda>u. outcome)\<rparr>"

definition aggregator_head :: "thrown + jsval response \<Rightarrow> env" where
  "aggregator_head outcome = offline\<lparr>http_head := (\<lambda>u. outcome)\<rparr>"

section \<open>Lemmas\<close>

subsection \<open>Reading properties\<close>

lemma bind_Inr [simp]: "bind (Inr v) f = f v"
  by (simp add: bind_def)

lemma bind_Inl [simp]: "bind (Inl x) f = Inl x"
  by (simp add: bind_def)

lemma truthy_get_prop: "truthy v \<Longrightarrow> get_prop v p = Inr (opt_prop v p)"
  by (cases v) auto

lemma truthy_opt_prop_get: "truthy (opt_prop v p) \<Longrightarrow> get_prop v p = Inr (opt_prop v p)"
  by (cases v) auto

subsection \<open>The example worlds\<close>

lemma default_heap_eq:
  "default_heap =
     [\<lparr>aggregatorUrl = ''https://aggregator-devnet.walrus.space'',
       publisherUrl = ''https://publisher-devnet.walrus.space'',
       systemObject = ''0x37c0e4d7b36a2f64d51bba262a1791f844cfd88f19c35b5ca709e1a6991e90dc'',
       wallet = None\<rparr>]"
  by (simp add: default_heap_def WalrusClient_new_def initial_config_def given_def or_else_def or_default_def truthy_opt_def)

lemma default_client_eq: "default_client = \<lparr>config = 0\<rparr>"
  by (simp add: default_client_def WalrusClient_new_def)

lemma decode_Hello: "base64_decode ''SGVsbG8='' = bytes_of ''Hello''"
  by (simp add: base64_decode_def bytes_of_def unbase64_def base64_table_def)

lemma encode_Hello: "base64_encode (bytes_of ''Hello'') = ''SGVsbG8=''"
  by (simp add: b64_char_def bytes_of_def base64_table_def)

lemma blobData_Hello: "blobData e ''SGVsbG8='' = ([], Inr (bytes_of ''Hello''))"
  by (simp add: blobData_def is_file_path_def startsWith_def decode_Hello)

lemma show_int_5: "show_int 5 = ''5''"
  by (simp add: show_int_def show_nat.simps)

lemma publisher_answers_put:
  "http_put (publisher_answers reply) u b ep = Inr \<lparr>status = 200, data = reply, headers = []\<rparr>"
  by (simp add: publisher_answers_def)

subsection \<open>Base64: decoding undoes encoding\<close>

lemma mask6_lt: "unat ((v :: byte) AND 0x3F) < 64"
proof -
  have "v AND 0x3F \<le> 0x3F" by (rule word_and_le1)
  then show ?thesis by (simp add: word_le_nat_alt)
qed

lemma index_of_nth:
  assumes "distinct xs" and "n < length xs"
  shows "index_of (xs ! n) xs = Some n"
  using assms
proof (induction xs arbitrary: n)
  case Nil
  then show ?case by simp
next
  case (Cons x xs)
  show ?case
  proof (cases n)
    case 0
    then show ?thesis by simp
  next
    case (Suc m)
    with Cons.prems have "xs ! m \<in> set xs" and "x \<notin> set xs" by simp_all
    then have "xs ! m \<noteq> x" by blast
    with Suc Cons show ?thesis by simp
  qed
qed

lemma base64_table_distinct: "distinct base64_table"
  by (simp add: base64_table_def)

lemma base64_table_length: "length base64_table = 64"
  by (simp add: base64_table_def)

lemma table_index:
  assumes "n < 64"
  shows "index_of (base64_table ! n) base64_table = Some n
         \<and> base64_table ! n \<noteq> CHR ''-'' \<and> base64_table ! n \<noteq> CHR ''_'' \<and> base64_table ! n \<noteq> CHR ''=''"
proof -
  have "base64_table ! n \<in> set base64_table"
    using assms by (simp add: base64_table_length)
  moreover have "CHR ''-'' \<notin> set base64_table" "CHR ''_'' \<notin> set base64_table"
    "CHR ''='' \<notin> set base64_table"
    by (simp_all add: base64_table_def)
  ultimately have "base64_table ! n \<noteq> CHR ''-'' \<and> base64_table ! n \<noteq> CHR ''_'' \<and> base64_table ! n \<noteq> CHR ''=''"
    by metis
  with index_of_nth [OF base64_table_distinct, of n] assms show ?thesis
    by (simp add: base64_table_length)
qed

lemma unbase64_b64_char: "unbase64 (b64_char v) = Some (v AND 0x3F)"
proof -
  let ?n = "unat (v AND 0x3F)"
  from table_index [OF mask6_lt [of v]]
  have "index_of (base64_table ! ?n) base64_table = Some ?n"
    and "base64_table ! ?n \<noteq> CHR ''-''" and "base64_table ! ?n \<noteq> CHR ''_''"
    by simp_all
  then show ?thesis
    by (simp add: unbase64_def b64_char_def)
qed

lemma b64_char_not_pad: "b64_char v \<noteq> CHR ''=''"
  using table_index [OF mask6_lt [of v]] by (simp add: b64_char_def)

lemma sextets_b64_char: "sextets (b64_char v # cs) = (v AND 0x3F) # sextets cs"
  by (simp add: unbase64_b64_char b64_char_not_pad)

lemma group_byte1:
  "push_bit 2 ((drop_bit 2 a AND 0x3F) AND 0x3F) OR drop_bit 4 (((push_bit 4 (a AND 0x03) OR drop_bit 4 b) AND 0x3F) AND 0x30) = (a :: byte)"
proof (rule bit_word_eqI)
  fix n
  assume "n < LENGTH(8)"
  then have "n \<in> {0, 1, 2, 3, 4, 5, 6, 7}" by auto
  then show "bit (push_bit 2 ((drop_bit 2 a AND 0x3F) AND 0x3F) OR drop_bit 4 (((push_bit 4 (a AND 0x03) OR drop_bit 4 b) AND 0x3F) AND 0x30)) n = bit a n"
    by (elim insertE emptyE) (simp_all add: bit_simps)
qed

lemma group_byte2:
  "push_bit 4 (((push_bit 4 (a AND 0x03) OR drop_bit 4 b) AND 0x3F) AND 0x0F) OR drop_bit 2 (((push_bit 2 (b AND 0x0F) OR drop_bit 6 c) AND 0x3F) AND 0x3C) = (b :: byte)"
proof (rule bit_word_eqI)
  fix n
  assume "n < LENGTH(8)"
  then have "n \<in> {0, 1, 2, 3, 4, 5, 6, 7}" by auto
  then show "bit (push_bit 4 (((push_bit 4 (a AND 0x03) OR drop_bit 4 b) AND 0x3F) AND 0x0F) OR drop_bit 2 (((push_bit 2 (b AND 0x0F) OR drop_bit 6 c) AND 0x3F) AND 0x3C)) n = bit b n"
    by (elim insertE emptyE) (simp_all add: bit_simps)
qed

lemma group_byte3:
  "push_bit 6 (((push_bit 2 (b AND 0x0F) OR drop_bit 6 c) AND 0x3F) AND 0x03) OR (((c AND 0x3F) AND 0x3F) AND 0x3F) = (c :: byte)"
proof (rule bit_word_eqI)
  fix n
  assume "n < LENGTH(8)"
  then have "n \<in> {0, 1, 2, 3, 4, 5, 6, 7}" by auto
  then show "bit (push_bit 6 (((push_bit 2 (b AND 0x0F) OR drop_bit 6 c) AND 0x3F) AND 0x03) OR (((c AND 0x3F) AND 0x3F) AND 0x3F)) n = bit c n"
    by (elim insertE emptyE) (simp_all add: bit_simps)
qed

lemma pair_byte2:
  "push_bit 4 (((push_bit 4 (a AND 0x03) OR drop_bit 4 b) AND 0x3F) AND 0x0F) OR drop_bit 2 ((push_bit 2 (b AND 0x0F) AND 0x3F) AND 0x3C) = (b :: byte)"
proof (rule bit_word_eqI)
  fix n
  assume "n < LENGTH(8)"
  then have "n \<in> {0, 1, 2, 3, 4, 5, 6, 7}" by auto
  then show "bit (push_bit 4 (((push_bit 4 (a AND 0x03) OR drop_bit 4 b) AND 0x3F) AND 0x0F) OR drop_bit 2 ((push_bit 2 (b AND 0x0F) AND 0x3F) AND 0x3C)) n = bit b n"
    by (elim insertE emptyE) (simp_all add: bit_simps)
qed

lemma single_byte1:
  "push_bit 2 ((drop_bit 2 a AND 0x3F) AND 0x3F) OR drop_bit 4 ((push_bit 4 (a AND 0x03) AND 0x3F) AND 0x30) = (a :: byte)"
proof (rule bit_word_eqI)
  fix n
  assume "n < LENGTH(8)"
  then have "n \<in> {0, 1, 2, 3, 4, 5, 6, 7}" by auto
  then show "bit (push_bit 2 ((drop_bit 2 a AND 0x3F) AND 0x3F) OR drop_bit 4 ((push_bit 4 (a AND 0x03) AND 0x3F) AND 0x30)) n = bit a n"
    by (elim insertE emptyE) (simp_all add: bit_simps)
qed

lemma sextets_pad: "sextets (CHR ''='' # cs) = []"
  by simp

lemma base64_roundtrip: "base64_decode (base64_encode bs) = bs"
  unfolding base64_decode_def
proof (induction bs rule: base64_encode.induct)
  case (1 a b c rest)
  then show ?case
    by (simp only: base64_encode.simps sextets_b64_char decode_groups.simps
        group_byte1 group_byte2 group_byte3)
next
  case (2 a b)
  show ?case
    by (simp only: base64_encode.simps sextets_b64_char sextets_pad decode_groups.simps
        group_byte1 pair_byte2)
next
  case (3 a)
  show ?case
    by (simp only: base64_encode.simps sextets_b64_char sextets_pad decode_groups.simps
        single_byte1)
next
  case 4
  show ?case by simp
qed

subsection \<open>\<^verbatim>\<open>storeBlob\<close>\<close>

lemma from_newlyCreated_object:
  assumes "truthy nc" and "opt_prop nc ''blobObject'' = JObj bo"
  shows "from_newlyCreated nc =
           Inr \<lparr>blobId = opt_prop (JObj bo) ''blobId'', size' = opt_prop (JObj bo) ''size'',
                encodedSize = opt_prop (JObj bo) ''encodedSize'', storageId = opt_prop (JObj bo) ''id'',
                certified = truthy (opt_prop nc ''resourceObject''),
                certifiedEpoch = opt_prop (opt_prop (opt_prop nc ''resourceObject'') ''storage'') ''startEpoch'',
                endEpoch = opt_prop (opt_prop (opt_prop nc ''resourceObject'') ''storage'') ''endEpoch''\<rparr>"
proof -
  have nc: "get_prop nc p = Inr (opt_prop nc p)" for p
    using assms(1) by (rule truthy_get_prop)
  have bo: "get_prop (JObj bo) p = Inr (opt_prop (JObj bo) p)" for p
    by simp
  show ?thesis
    unfolding from_newlyCreated_def by (simp only: nc assms(2) bo bind_Inr)
qed

lemma from_alreadyCertified_truthy:
  assumes "truthy ac"
  shows "from_alreadyCertified ac =
           Inr \<lparr>blobId = opt_prop ac ''blobId'', size' = JNum 0, encodedSize = JNum 0,
                storageId = opt_prop ac ''blobId'', certified = True,
                certifiedEpoch = opt_prop ac ''certifiedEpoch'', endEpoch = opt_prop ac ''endEpoch''\<rparr>"
proof -
  have ac: "get_prop ac p = Inr (opt_prop ac p)" for p
    using assms by (rule truthy_get_prop)
  show ?thesis
    unfolding from_alreadyCertified_def by (simp only: ac bind_Inr)
qed

lemma from_reply_newlyCreated:
  assumes "truthy (opt_prop d ''newlyCreated'')"
  shows "from_reply d = from_newlyCreated (opt_prop d ''newlyCreated'')"
  unfolding from_reply_def using assms by (simp add: truthy_opt_prop_get)

lemma from_reply_alreadyCertified:
  assumes "\<not> truthy (opt_prop d ''newlyCreated'')" and "truthy (opt_prop d ''alreadyCertified'')"
  shows "from_reply d = from_alreadyCertified (opt_prop d ''alreadyCertified'')"
proof -
  have "get_prop d p = Inr (opt_prop d p)" for p
    using assms(2) by (cases d) auto
  then show ?thesis
    unfolding from_reply_def using assms by simp
qed

lemma from_reply_neither:
  assumes "\<not> truthy (opt_prop d ''newlyCreated'')" and "\<not> truthy (opt_prop d ''alreadyCertified'')"
  shows "from_reply d =
           (if d = JUndefined then Inl (type_error ''undefined'' ''newlyCreated'')
            else if d = JNull then Inl (type_error ''null'' ''newlyCreated'')
            else Inl (JsError ''Unexpected response format from Walrus publisher''))"
  unfolding from_reply_def using assms by (cases d) auto

lemma storeBlob_after_put:
  assumes "blobData e d = (t, Inr b)"
    and "http_put e (publisherUrl (h ! config c) @ ''/v1/store'') b
           (show_int (case epochs of None \<Rightarrow> 5 | Some n \<Rightarrow> n)) = Inr r"
  shows "storeBlob h c e d epochs =
           (t @ [HttpPut (publisherUrl (h ! config c) @ ''/v1/store'') b
                   (show_int (case epochs of None \<Rightarrow> 5 | Some n \<Rightarrow> n))],
            (case from_reply (data r) of Inl x \<Rightarrow> Inl (storeBlob_catch x) | Inr v \<Rightarrow> Inr v))"
  unfolding storeBlob_def storeBlob_try_def using assms
  by (simp add: Let_def split: sum.splits)

lemma storeBlob_put_fails:
  assumes "blobData e d = (t, Inr b)"
    and "http_put e (publisherUrl (h ! config c) @ ''/v1/store'') b
           (show_int (case epochs of None \<Rightarrow> 5 | Some n \<Rightarrow> n)) = Inl x"
  shows "snd (storeBlob h c e d epochs) = Inl (storeBlob_catch x)"
  unfolding storeBlob_def storeBlob_try_def using assms
  by (simp add: Let_def split: sum.splits)

lemma publisher_rejects_put: "http_put (publisher_rejects x) u b ep = Inl x"
  by (simp add: publisher_rejects_def)

lemma storeBlob_catch_JsError: "storeBlob_catch (JsError m) = JsError (''Failed to store blob: '' @ m)"
  by (simp add: storeBlob_catch_def)

lemma startsWith_iff: "startsWith s p \<longleftrightarrow> (\<exists>rest. s = p @ rest)"
proof
  assume "startsWith s p"
  then have "s = p @ drop (length p) s"
    unfolding startsWith_def by (metis append_take_drop_id)
  then show "\<exists>rest. s = p @ rest" ..
next
  assume "\<exists>rest. s = p @ rest"
  then show "startsWith s p"
    unfolding startsWith_def by auto
qed

lemma is_file_path_iff:
  "is_file_path d \<longleftrightarrow> (\<exists>rest. d = ''/'' @ rest \<or> d = ''./'' @ rest \<or> d = ''../'' @ rest)"
  unfolding is_file_path_def startsWith_iff by blast

lemma storeBlob_calls:
  "fst (storeBlob h c e d epochs) =
     (case blobData e d of
        (t, Inl x) \<Rightarrow> t
      | (t, Inr b) \<Rightarrow>
          t @ [HttpPut (publisherUrl (h ! config c) @ ''/v1/store'') b
                 (show_int (case epochs of None \<Rightarrow> 5 | Some n \<Rightarrow> n))])"
  unfolding storeBlob_def storeBlob_try_def
  by (simp add: Let_def split: prod.splits sum.splits)

subsection \<open>\<^verbatim>\<open>getBlob\<close> and \<^verbatim>\<open>getBlobInfo\<close>\<close>

lemma remote_or_transport_None: "remote_or_transport msg None = msg"
  by (simp add: remote_or_transport_def js_or_def)

lemma remote_or_transport_Some:
  "remote_or_transport msg (Some r) =
     (if truthy (opt_prop (data r) ''error'') then to_String (opt_prop (data r) ''error'') else msg)"
  by (simp add: remote_or_transport_def js_or_def)

lemma storeBlob_catch_remote:
  "storeBlob_catch (AxiosError msg (Some \<lparr>status = st, data = JObj [(''error'', JStr m)], headers = hs\<rparr>)) =
     JsError (''Failed to store blob: '' @ (if m = [] then msg else m))"
  by (simp add: storeBlob_catch_def remote_or_transport_Some)

lemma getBlob_catch_cases:
  "getBlob_catch bid (AxiosError msg None) = JsError (''Failed to retrieve blob: '' @ msg)"
  "status r = 404 \<Longrightarrow> getBlob_catch bid (AxiosError msg (Some r)) = JsError (''Blob not found: '' @ bid)"
  "status r \<noteq> 404 \<Longrightarrow>
     getBlob_catch bid (AxiosError msg (Some r)) =
       JsError (''Failed to retrieve blob: '' @
         (if truthy (opt_prop (data r) ''error'') then to_String (opt_prop (data r) ''error'') else msg))"
  "getBlob_catch bid (JsError m) = JsError (''Failed to retrieve blob: '' @ m)"
  "getBlob_catch bid (Thrown v) = JsError (''Failed to retrieve blob: '' @ to_String v)"
  by (simp_all add: getBlob_catch_def remote_or_transport_None remote_or_transport_Some)

lemma getBlobInfo_catch_cases:
  "getBlobInfo_catch bid (AxiosError msg None) = JsError (''Failed to get blob info: '' @ msg)"
  "status r = 404 \<Longrightarrow> getBlobInfo_catch bid (AxiosError msg (Some r)) = JsError (''Blob not found: '' @ bid)"
  "status r \<noteq> 404 \<Longrightarrow>
     getBlobInfo_catch bid (AxiosError msg (Some r)) =
       JsError (''Failed to get blob info: '' @
         (if truthy (opt_prop (data r) ''error'') then to_String (opt_prop (data r) ''error'') else msg))"
  "getBlobInfo_catch bid (JsError m) = JsError (''Failed to get blob info: '' @ m)"
  "getBlobInfo_catch bid (Thrown v) = JsError (''Failed to get blob info: '' @ to_String v)"
  by (simp_all add: getBlobInfo_catch_def remote_or_transport_None remote_or_transport_Some)

text \<open>Reading back a decimal numeral.\<close>

lemma digit_of_decimal:
  assumes "d < 10"
  shows "digit_of 10 (''0123456789'' ! d) = Some d"
proof -
  from assms have "d \<in> {0, 1, 2, 3, 4, 5, 6, 7, 8, 9}" by auto
  then show ?thesis
    by (elim insertE emptyE) (simp_all add: digit_of_def)
qed

lemma read_digits_append:
  assumes "\<forall>ch \<in> set s. digit_of radix ch \<noteq> None"
  shows "read_digits radix (s @ t) = read_digits radix s @ read_digits radix t"
  using assms by (induction s) (auto split: option.splits)

lemma show_nat_decimal: "\<forall>ch \<in> set (show_nat n). digit_of 10 ch \<noteq> None"
proof (induction n rule: show_nat.induct)
  case (1 n)
  show ?case
  proof (cases "n < 10")
    case True
    then show ?thesis
      by (simp add: show_nat.simps [of n] digit_of_decimal)
  next
    case False
    with 1 have "\<forall>ch \<in> set (show_nat (n div 10)). digit_of 10 ch \<noteq> None" by simp
    moreover have "digit_of 10 (''0123456789'' ! (n mod 10)) \<noteq> None"
      by (simp add: digit_of_decimal)
    ultimately show ?thesis
      using False by (simp add: show_nat.simps [of n])
  qed
qed

lemma show_nat_not_empty: "show_nat n \<noteq> []"
  by (simp add: show_nat.simps [of n])

lemma digits_value_snoc: "digits_value radix (ds @ [d]) = digits_value radix ds * radix + d"
  by (simp add: digits_value_def)

lemma read_digits_show_nat: "digits_value 10 (read_digits 10 (show_nat n)) = n"
proof (induction n rule: show_nat.induct)
  case (1 n)
  show ?case
  proof (cases "n < 10")
    case True
    then show ?thesis
      by (simp add: show_nat.simps [of n] digit_of_decimal digits_value_def)
  next
    case False
    with 1 have ih: "digits_value 10 (read_digits 10 (show_nat (n div 10))) = n div 10" by simp
    have "read_digits 10 (show_nat n) = read_digits 10 (show_nat (n div 10)) @ [n mod 10]"
      using False
      by (simp add: show_nat.simps [of n] read_digits_append show_nat_decimal digit_of_decimal)
    then show ?thesis
      by (simp add: digits_value_snoc ih)
  qed
qed

lemma read_digits_not_empty:
  assumes "s \<noteq> []" and "\<forall>ch \<in> set s. digit_of 10 ch \<noteq> None"
  shows "read_digits 10 s \<noteq> []"
  using assms by (cases s) (auto split: option.splits)

lemma bit_length_le:
  assumes "n < 2 ^ k"
  shows "bit_length n \<le> k"
  using assms
proof (induction k arbitrary: n)
  case 0
  then show ?case by (simp add: bit_length.simps [of 0])
next
  case (Suc k)
  show ?case
  proof (cases "n = 0")
    case True
    then show ?thesis by (simp add: bit_length.simps [of 0])
  next
    case False
    from Suc.prems have "n div 2 < 2 ^ k" by simp
    then have "bit_length (n div 2) \<le> k" by (rule Suc.IH)
    with False show ?thesis by (simp add: bit_length.simps [of n])
  qed
qed

lemma to_double_exact:
  assumes "n < 2 ^ 53"
  shows "to_double n = Some n"
proof -
  from assms have "bit_length n - 53 = 0"
    using bit_length_le [of n 53] by simp
  moreover have "(2 :: nat) ^ 53 \<le> 2 ^ 1024"
    by (rule power_increasing) simp_all
  with assms have "n < 2 ^ 1024" by (rule less_le_trans)
  ultimately show ?thesis
    by (simp add: to_double_def)
qed

lemma parseInt_decimal:
  assumes "s \<noteq> []" and "\<forall>ch \<in> set s. digit_of 10 ch \<noteq> None"
  shows "parseInt s =
           (case to_double (digits_value 10 (read_digits 10 s)) of
              None \<Rightarrow> JInf False
            | Some m \<Rightarrow> JNum (int m))"
proof -
  from assms(1) obtain a t where s: "s = a # t" by (cases s) auto
  have nd: "digit_of 10 ch = None"
    if "ch \<in> {CHR '' '', CHR 0x09, CHR 0x0A, CHR 0x0B, CHR 0x0C, CHR 0x0D, CHR 0xA0, CHR ''-'', CHR ''+'', CHR ''x'', CHR ''X''}"
    for ch
    using that by (elim insertE emptyE) (simp_all add: digit_of_def)
  have da: "digit_of 10 a \<noteq> None"
    using assms(2) s by simp
  have a: "a \<notin> {CHR '' '', CHR 0x09, CHR 0x0A, CHR 0x0B, CHR 0x0C, CHR 0x0D, CHR 0xA0, CHR ''-'', CHR ''+'', CHR ''x'', CHR ''X''}"
  proof
    assume "a \<in> {CHR '' '', CHR 0x09, CHR 0x0A, CHR 0x0B, CHR 0x0C, CHR 0x0D, CHR 0xA0, CHR ''-'', CHR ''+'', CHR ''x'', CHR ''X''}"
    then have "digit_of 10 a = None" by (rule nd)
    with da show False by simp
  qed
  have sp: "dropWhile is_space s = s"
    using a by (simp add: s is_space_def)
  have sign: "take 1 s \<noteq> ''-''" "take 1 s \<noteq> ''+''"
    using a by (simp_all add: s)
  have hex: "take 2 s \<noteq> ''0x''" "take 2 s \<noteq> ''0X''"
  proof -
    have "b \<noteq> CHR ''x'' \<and> b \<noteq> CHR ''X''" if "t = b # u" for b u
    proof -
      have "digit_of 10 b \<noteq> None"
        using assms(2) that s by simp
      moreover have "digit_of 10 (CHR ''x'') = None" "digit_of 10 (CHR ''X'') = None"
        by (simp_all add: digit_of_def)
      ultimately show ?thesis by auto
    qed
    then show "take 2 s \<noteq> ''0x''" "take 2 s \<noteq> ''0X''"
      by (cases t; simp add: s)+
  qed
  have ne: "read_digits 10 s \<noteq> []"
    using assms by (rule read_digits_not_empty)
  show ?thesis
    unfolding parseInt_def Let_def by (simp only: sp sign hex ne simp_thms if_False)
qed

lemma parseInt_show_nat:
  "parseInt (show_nat n) = (case to_double n of None \<Rightarrow> JInf False | Some m \<Rightarrow> JNum (int m))"
  by (simp add: parseInt_decimal show_nat_not_empty show_nat_decimal read_digits_show_nat)

lemma parseInt_show_nat_exact:
  assumes "n < 2 ^ 53"
  shows "parseInt (show_nat n) = JNum (int n)"
  by (simp add: parseInt_show_nat to_double_exact [OF assms])

lemma to_double_0: "to_double 0 = Some 0"
  by (rule to_double_exact) simp

lemma parseInt_0: "parseInt ''0'' = JNum 0"
  by (simp add: parseInt_def is_space_def digit_of_def digits_value_def to_double_0)

subsection \<open>Tool calls\<close>

lemma StoreBlobSchema_missing_data:
  assumes "opt_prop args ''data'' = JUndefined"
  shows "\<exists>x. StoreBlobSchema_parse args = Inl x"
  using assms unfolding StoreBlobSchema_parse_def by simp

lemma call_tool_returns: "\<exists>r. snd (call_tool h c e name args) = Inr r"
  unfolding call_tool_def by (cases "call_tool_try h c e name args") (auto split: sum.splits)

lemma call_tool_catches:
  assumes "snd (call_tool_try h c e name args) = Inl x"
  shows "snd (call_tool h c e name args) =
           Inr \<lparr>content = [\<lparr>type' = ''text'', text' = ''Error: '' @ error_text x\<rparr>],
                isError = Some True\<rparr>"
  using assms unfolding call_tool_def by (cases "call_tool_try h c e name args") auto

lemma call_tool_try_unknown:
  assumes "name \<noteq> ''store_blob''" and "name \<noteq> ''get_blob''" and "name \<noteq> ''list_blobs''"
    and "name \<noteq> ''delete_blob''" and "name \<noteq> ''get_blob_info''"
  shows "call_tool_try h c e name args = ([], Inl (JsError (''Unknown tool: '' @ name)))"
  using assms unfolding call_tool_try_def by simp

lemma call_tool_try_store_blob:
  "call_tool_try h c e ''store_blob'' args =
     (case StoreBlobSchema_parse args of
        Inl x \<Rightarrow> ([], Inl x)
      | Inr (d, epochs) \<Rightarrow>
          (case storeBlob h c e d (Some (case epochs of None \<Rightarrow> 5 | Some n \<Rightarrow> n)) of
             (t, Inl x) \<Rightarrow> (t, Inl x)
           | (t, Inr result) \<Rightarrow> (t, Inr (text_result (JSON_stringify (BlobInfo_json result))))))"
  unfolding call_tool_try_def by simp

lemma call_tool_try_get_blob:
  "call_tool_try h c e ''get_blob'' args =
     (case BlobIdSchema_parse args of
        Inl x \<Rightarrow> ([], Inl x)
      | Inr bid \<Rightarrow>
          (case getBlob h c e bid of
             (t, Inl x) \<Rightarrow> (t, Inl x)
           | (t, Inr result) \<Rightarrow> (t, Inr (text_result result))))"
  unfolding call_tool_try_def by simp

lemma call_tool_try_get_blob_info:
  "call_tool_try h c e ''get_blob_info'' args =
     (case BlobIdSchema_parse args of
        Inl x \<Rightarrow> ([], Inl x)
      | Inr bid \<Rightarrow>
          (case getBlobInfo h c e bid of
             (t, Inl x) \<Rightarrow> (t, Inl x)
           | (t, Inr result) \<Rightarrow> (t, Inr (text_result (JSON_stringify (BlobInfo_json result))))))"
  unfolding call_tool_try_def by simp

lemma call_tool_try_delete_blob:
  "call_tool_try h c e ''delete_blob'' args =
     (case BlobIdSchema_parse args of
        Inl x \<Rightarrow> ([], Inl x)
      | Inr bid \<Rightarrow>
          (case deleteBlob bid of
             Inl x \<Rightarrow> ([], Inl x)
           | Inr result \<Rightarrow> ([], Inr (text_result (JSON_stringify (DeleteOutcome_json result))))))"
  unfolding call_tool_try_def by simp

lemma call_tool_try_list_blobs:
  "call_tool_try h c e ''list_blobs'' args =
     (case ListBlobsSchema_parse args of
        Inl x \<Rightarrow> ([], Inl x)
      | Inr limit \<Rightarrow>
          (case listBlobs (Some (case limit of None \<Rightarrow> 10 | Some n \<Rightarrow> n)) of
             (t, Inl x) \<Rightarrow> (t, Inl x)
           | (t, Inr result) \<Rightarrow> (t, Inr (text_result (JSON_stringify (JArr (map JStr result)))))))"
  unfolding call_tool_try_def by simp

lemma call_tool_try_invalid_blobId:
  assumes "BlobIdSchema_parse args = Inl x"
    and "name = ''get_blob'' \<or> name = ''delete_blob'' \<or> name = ''get_blob_info''"
  shows "snd (call_tool_try h c e name args) = Inl x"
  using assms
  by (auto simp: call_tool_try_get_blob call_tool_try_delete_blob call_tool_try_get_blob_info)

lemma error_text_ZodError: "error_text (ZodError issues) = JSON_stringify (JArr issues)"
  by (simp add: ZodError_def)

lemma StoreBlobSchema_missing_data_issues:
  assumes "opt_prop args ''data'' = JUndefined"
  shows "StoreBlobSchema_parse args =
           Inl (ZodError
             (if zod_type args \<noteq> ''object'' then [invalid_type ''object'' args []]
              else invalid_type ''string'' JUndefined [''data'']
                   # z_number_optional ''epochs'' (opt_prop args ''epochs'')))"
  using assms unfolding StoreBlobSchema_parse_def by (simp add: z_string_def)

lemma BlobIdSchema_missing_blobId:
  assumes "opt_prop args ''blobId'' = JUndefined"
  shows "BlobIdSchema_parse args =
           Inl (ZodError
             (if zod_type args \<noteq> ''object'' then [invalid_type ''object'' args []]
              else [invalid_type ''string'' JUndefined [''blobId'']]))"
  using assms unfolding BlobIdSchema_parse_def by (simp add: z_string_def)

subsection \<open>The object store and the request loop\<close>

lemma getConfig_eq: "getConfig h c = (Inr (length h), h @ [h ! config c])"
  by (simp add: getConfig_def)

lemma read_resource_unknown:
  assumes "u \<noteq> ''walrus://status''" and "u \<noteq> ''walrus://config''"
  shows "read_resource h c u =
           (Inl (JsError (''Failed to read resource '' @ u @ '': Unknown resource: '' @ u)), h)"
  using assms by (simp add: read_resource_def read_resource_try_def)

lemma read_resource_extends: "\<exists>ext. snd (read_resource h c u) = h @ ext"
  by (simp add: read_resource_def read_resource_try_def getConfig_eq getNetworkStatus_def)

lemma handle_extends: "\<exists>ext. snd (handle h c e rq) = h @ ext"
proof (cases rq)
  case (CallToolRequest name args)
  then show ?thesis
    by (simp add: handle_def split: sum.splits)
next
  case (ReadResourceRequest u)
  obtain r h' where rr: "read_resource h c u = (r, h')"
    by (cases "read_resource h c u")
  with read_resource_extends [of h c u] obtain ext where "h' = h @ ext"
    by auto
  with rr ReadResourceRequest show ?thesis
    by (simp add: handle_def split: sum.splits)
qed

lemma serve_Cons:
  "serve h c ((e, rq) # rest) =
     (fst (handle h c e rq) # fst (serve (snd (handle h c e rq)) c rest),
      snd (serve (snd (handle h c e rq)) c rest))"
  by (simp split: prod.splits)

lemma serve_extends: "\<exists>ext. snd (serve h c rqs) = h @ ext"
proof (induction rqs arbitrary: h)
  case Nil
  then show ?case by simp
next
  case (Cons erq rqs)
  obtain e rq where erq: "erq = (e, rq)"
    by (cases erq)
  from handle_extends [of h c e rq] obtain ext where h': "snd (handle h c e rq) = h @ ext"
    by blast
  from Cons.IH [of "h @ ext"] obtain ext' where "snd (serve (h @ ext) c rqs) = (h @ ext) @ ext'"
    by blast
  with h' have "snd (serve h c (erq # rqs)) = h @ (ext @ ext')"
    by (simp only: erq serve_Cons snd_conv append_assoc)
  then show ?case by blast
qed

lemma serve_keeps_config:
  assumes "config c < length h"
  shows "snd (serve h c rqs) ! config c = h ! config c"
proof -
  from serve_extends [of h c rqs] obtain ext where "snd (serve h c rqs) = h @ ext"
    by blast
  with assms show ?thesis
    by (simp add: nth_append)
qed

lemma serve_append:
  "serve h c (xs @ ys) =
     (fst (serve h c xs) @ fst (serve (snd (serve h c xs)) c ys),
      snd (serve (snd (serve h c xs)) c ys))"
proof (induction xs arbitrary: h)
  case Nil
  then show ?case by simp
next
  case (Cons erq xs)
  obtain e rq where erq: "erq = (e, rq)"
    by (cases erq)
  show ?case
    by (simp only: erq append_Cons serve_Cons Cons.IH fst_conv snd_conv)
qed

lemma length_serve: "length (fst (serve h c rqs)) = length rqs"
proof (induction rqs arbitrary: h)
  case Nil
  then show ?case by simp
next
  case (Cons erq rqs)
  obtain e rq where erq: "erq = (e, rq)"
    by (cases erq)
  show ?case
    by (simp only: erq serve_Cons fst_conv list.size Cons.IH)
qed

lemma run_caller_invariant:
  assumes "config c < length h"
    and "\<forall>a \<in> set held. a < length h \<and> a \<noteq> config c"
    and "run_caller c steps (h, held) = (h', held')"
  shows "config c < length h' \<and> (\<forall>a \<in> set held'. a < length h' \<and> a \<noteq> config c)
         \<and> h' ! config c = h ! config c"
  using assms
proof (induction steps arbitrary: h held)
  case Nil
  then show ?case by simp
next
  case (Cons step steps)
  show ?case
  proof (cases step)
    case CallGetConfig
    let ?h1 = "h @ [h ! config c]"
    from Cons.prems(3) CallGetConfig
    have run: "run_caller c steps (?h1, held @ [length h]) = (h', held')"
      by (simp add: getConfig_eq)
    have 1: "config c < length ?h1"
      using Cons.prems(1) by simp
    have 2: "\<forall>a \<in> set (held @ [length h]). a < length ?h1 \<and> a \<noteq> config c"
      using Cons.prems(1,2) by auto
    from Cons.IH [OF 1 2 run] have "config c < length h'"
      and "\<forall>a \<in> set held'. a < length h' \<and> a \<noteq> config c"
      and "h' ! config c = ?h1 ! config c"
      by simp_all
    moreover have "?h1 ! config c = h ! config c"
      using Cons.prems(1) by (simp add: nth_append)
    ultimately show ?thesis by simp
  next
    case (Mutate k v)
    show ?thesis
    proof (cases "k < length held")
      case True
      let ?h1 = "h[held ! k := v]"
      from Cons.prems(3) Mutate True
      have run: "run_caller c steps (?h1, held) = (h', held')"
        by simp
      have target: "held ! k \<noteq> config c"
        using Cons.prems(2) True by (metis nth_mem)
      have 1: "config c < length ?h1"
        using Cons.prems(1) by simp
      have 2: "\<forall>a \<in> set held. a < length ?h1 \<and> a \<noteq> config c"
        using Cons.prems(2) by simp
      from Cons.IH [OF 1 2 run] have "config c < length h'"
        and "\<forall>a \<in> set held'. a < length h' \<and> a \<noteq> config c"
        and "h' ! config c = ?h1 ! config c"
        by simp_all
      moreover have "?h1 ! config c = h ! config c"
        using target by simp
      ultimately show ?thesis by simp
    next
      case False
      with Cons.prems(3) Mutate
      have run: "run_caller c steps (h, held) = (h', held')"
        by simp
      from Cons.IH [OF Cons.prems(1,2) run] show ?thesis .
    qed
  qed
qed

subsection \<open>Configuration\<close>

lemma resolution_chains:
  assumes "agg = or_default (or_else a1 b1) d1"
    and "pub = or_default (or_else a2 b2) d2"
    and "sys = or_default (or_else a3 b3) d3"
    and "wal = or_else a4 b4"
    and "\<forall>rqs. kept rqs"
  shows
    "(\<forall>s. a1 = Some s \<and> s \<noteq> [] \<longrightarrow> agg = s)
     \<and> (\<forall>s. \<not> truthy_opt a1 \<and> b1 = Some s \<and> s \<noteq> [] \<longrightarrow> agg = s)
     \<and> (\<not> truthy_opt a1 \<and> \<not> truthy_opt b1 \<longrightarrow> agg = d1)
     \<and> (\<forall>s. a2 = Some s \<and> s \<noteq> [] \<longrightarrow> pub = s)
     \<and> (\<forall>s. \<not> truthy_opt a2 \<and> b2 = Some s \<and> s \<noteq> [] \<longrightarrow> pub = s)
     \<and> (\<not> truthy_opt a2 \<and> \<not> truthy_opt b2 \<longrightarrow> pub = d2)
     \<and> (\<forall>s. a3 = Some s \<and> s \<noteq> [] \<longrightarrow> sys = s)
     \<and> (\<forall>s. \<not> truthy_opt a3 \<and> b3 = Some s \<and> s \<noteq> [] \<longrightarrow> sys = s)
     \<and> (\<not> truthy_opt a3 \<and> \<not> truthy_opt b3 \<longrightarrow> sys = d3)
     \<and> (\<forall>s. a4 = Some s \<and> s \<noteq> [] \<longrightarrow> wal = Some s)
     \<and> (\<not> truthy_opt a4 \<longrightarrow> wal = b4)
     \<and> (\<forall>rqs. kept rqs)"
  unfolding assms(1-4)
  by (intro conjI allI impI; (elim conjE)?;
      auto simp: or_default_def or_else_def truthy_opt_def assms(5) split: option.splits)

lemma unbase64_pad: "unbase64 (CHR ''='') = None"
  by (simp add: unbase64_def base64_table_def)

lemma sextets_lenient:
  "sextets s = sextets (filter (\<lambda>ch. unbase64 ch \<noteq> None) (takeWhile (\<lambda>ch. ch \<noteq> CHR ''='') s))"
  by (induction s) (auto simp: unbase64_pad split: option.splits)

section \<open>The claims\<close>



text \<open>
  C2. For every string payload: it has the shape of a path exactly when it starts with
  \<^verbatim>\<open>/\<close>, \<^verbatim>\<open>./\<close> or \<^verbatim>\<open>../\<close>; \<^verbatim>\<open>storeBlob\<close> reads a file exactly
  when the payload has that shape, and the file it reads is the one the payload names; the
  bytes of the file are then the body of the write request. For every other string the
  body of the write request is the base64 decoding of the string, and no file is read:
  \<^verbatim>\<open>SGVsbG8=\<close> sends the bytes of \<^verbatim>\<open>Hello\<close>.
\<close>

theorem storeBlob_payload_source:
  "(is_file_path d \<longleftrightarrow> (\<exists>rest. d = ''/'' @ rest \<or> d = ''./'' @ rest \<or> d = ''../'' @ rest))
   \<and> (is_file_path d \<longleftrightarrow> (\<exists>p. ReadFile p \<in> set (fst (storeBlob h c e d epochs))))
   \<and> (\<forall>p. ReadFile p \<in> set (fst (storeBlob h c e d epochs)) \<longrightarrow> p = d)
   \<and> (\<forall>bs. is_file_path d \<and> fs_readFile e d = Inr bs \<longrightarrow>
         fst (storeBlob h c e d epochs) =
           [ReadFile d,
            HttpPut (publisherUrl (h ! config c) @ ''/v1/store'') bs
              (show_int (case epochs of None \<Rightarrow> 5 | Some n \<Rightarrow> n))])
   \<and> (\<not> is_file_path d \<longrightarrow>
         fst (storeBlob h c e d epochs) =
           [HttpPut (publisherUrl (h ! config c) @ ''/v1/store'') (base64_decode d)
              (show_int (case epochs of None \<Rightarrow> 5 | Some n \<Rightarrow> n))])
   \<and> base64_decode ''SGVsbG8='' = bytes_of ''Hello''"
proof -
  have reads: "is_file_path d \<longleftrightarrow> (\<exists>p. ReadFile p \<in> set (fst (storeBlob h c e d epochs)))"
    by (cases "fs_readFile e d") (auto simp: storeBlob_calls blobData_def)
  have which: "p = d" if "ReadFile p \<in> set (fst (storeBlob h c e d epochs))" for p
    using that by (cases "fs_readFile e d") (auto simp: storeBlob_calls blobData_def split: if_splits)
  have from_file: "fst (storeBlob h c e d epochs) =
           [ReadFile d,
            HttpPut (publisherUrl (h ! config c) @ ''/v1/store'') bs
              (show_int (case epochs of None \<Rightarrow> 5 | Some n \<Rightarrow> n))]"
    if "is_file_path d" and "fs_readFile e d = Inr bs" for bs
    using that by (simp add: storeBlob_calls blobData_def)
  have from_text: "fst (storeBlob h c e d epochs) =
           [HttpPut (publisherUrl (h ! config c) @ ''/v1/store'') (base64_decode d)
              (show_int (case epochs of None \<Rightarrow> 5 | Some n \<Rightarrow> n))]"
    if "\<not> is_file_path d"
    using that by (simp add: storeBlob_calls blobData_def)
  from is_file_path_iff [of d] reads which from_file from_text decode_Hello show ?thesis
    by blast
qed

theorem storeBlob_payload_source_witness:
  "is_file_path ''./fixtures/a.bin''
   \<and> fs_readFile (with_file ''./fixtures/a.bin'' [1, 2, 3] offline) ''./fixtures/a.bin'' = Inr [1, 2, 3]
   \<and> fst (storeBlob default_heap default_client (with_file ''./fixtures/a.bin'' [1, 2, 3] offline)
            ''./fixtures/a.bin'' None) =
       [ReadFile ''./fixtures/a.bin'',
        HttpPut ''https://publisher-devnet.walrus.space/v1/store'' [1, 2, 3] ''5'']
   \<and> \<not> is_file_path ''SGVsbG8=''
   \<and> fst (storeBlob default_heap default_client (with_file ''./fixtures/a.bin'' [1, 2, 3] offline)
            ''SGVsbG8='' None) =
       [HttpPut ''https://publisher-devnet.walrus.space/v1/store'' (bytes_of ''Hello'') ''5'']"
proof -
  let ?e = "with_file ''./fixtures/a.bin'' [1, 2, 3] offline"
  have path: "is_file_path ''./fixtures/a.bin''"
    by (simp add: is_file_path_def startsWith_def)
  have stored: "fs_readFile ?e ''./fixtures/a.bin'' = Inr [1, 2, 3]"
    by (simp add: with_file_def)
  have no_path: "\<not> is_file_path ''SGVsbG8=''"
    by (simp add: is_file_path_def startsWith_def)
  from storeBlob_payload_source [of "''./fixtures/a.bin''" default_heap default_client ?e None]
    path stored
  have 1: "fst (storeBlob default_heap default_client ?e ''./fixtures/a.bin'' None) =
       [ReadFile ''./fixtures/a.bin'',
        HttpPut ''https://publisher-devnet.walrus.space/v1/store'' [1, 2, 3] ''5'']"
    by (simp add: default_heap_eq default_client_eq show_int_5)
  from storeBlob_payload_source [of "''SGVsbG8=''" default_heap default_client ?e None] no_path
  have 2: "fst (storeBlob default_heap default_client ?e ''SGVsbG8='' None) =
       [HttpPut ''https://publisher-devnet.walrus.space/v1/store'' (bytes_of ''Hello'') ''5'']"
    by (simp add: default_heap_eq default_client_eq show_int_5)
  from path stored no_path 1 2 show ?thesis by blast
qed

text \<open>
  C3. The tool-call handler never throws: for every tool name and every arguments value
  it returns an envelope. Whatever is thrown inside it comes back as the envelope whose
  \<^verbatim>\<open>isError\<close> is true and whose text is \<^verbatim>\<open>Error:\<close> and the message of the error.
  So does a call of a tool that does not exist (the message is \<^verbatim>\<open>Unknown tool:\<close> and
  the name); so does every call whose arguments its schema refuses: a \<^verbatim>\<open>store_blob\<close>
  call with no \<^verbatim>\<open>data\<close>, and a \<^verbatim>\<open>get_blob\<close>, \<^verbatim>\<open>delete_blob\<close> or
  \<^verbatim>\<open>get_blob_info\<close> call with no \<^verbatim>\<open>blobId\<close>, where the message is the list of the
  schema's issues; and so does every error thrown by \<^verbatim>\<open>storeBlob\<close>, \<^verbatim>\<open>getBlob\<close> or
  \<^verbatim>\<open>getBlobInfo\<close>.
\<close>

theorem call_tool_never_throws:
  "(\<exists>r. snd (call_tool h c e name args) = Inr r)
   \<and> (\<forall>x. snd (call_tool_try h c e name args) = Inl x \<longrightarrow>
         snd (call_tool h c e name args) =
           Inr \<lparr>content = [\<lparr>type' = ''text'', text' = ''Error: '' @ error_text x\<rparr>],
                isError = Some True\<rparr>)
   \<and> (opt_prop args ''data'' = JUndefined \<longrightarrow>
         (\<exists>m. snd (call_tool h c e ''store_blob'' args) =
            Inr \<lparr>content = [\<lparr>type' = ''text'', text' = ''Error: '' @ m\<rparr>], isError = Some True\<rparr>))
   \<and> (name \<noteq> ''store_blob'' \<and> name \<noteq> ''get_blob'' \<and> name \<noteq> ''list_blobs''
        \<and> name \<noteq> ''delete_blob'' \<and> name \<noteq> ''get_blob_info'' \<longrightarrow>
         snd (call_tool h c e name args) =
           Inr \<lparr>content = [\<lparr>type' = ''text'', text' = ''Error: Unknown tool: '' @ name\<rparr>],
                isError = Some True\<rparr>)
   \<and> (\<forall>d ep x. StoreBlobSchema_parse args = Inr (d, ep)
         \<and> snd (storeBlob h c e d (Some (case ep of None \<Rightarrow> 5 | Some n \<Rightarrow> n))) = Inl x \<longrightarrow>
         snd (call_tool h c e ''store_blob'' args) =
           Inr \<lparr>content = [\<lparr>type' = ''text'', text' = ''Error: '' @ error_text x\<rparr>],
                isError = Some True\<rparr>)
   \<and> (\<forall>bid x. BlobIdSchema_parse args = Inr bid \<and> snd (getBlob h c e bid) = Inl x \<longrightarrow>
         snd (call_tool h c e ''get_blob'' args) =
           Inr \<lparr>content = [\<lparr>type' = ''text'', text' = ''Error: '' @ error_text x\<rparr>],
                isError = Some True\<rparr>)
   \<and> (\<forall>bid x. BlobIdSchema_parse args = Inr bid \<and> snd (getBlobInfo h c e bid) = Inl x \<longrightarrow>
         snd (call_tool h c e ''get_blob_info'' args) =
           Inr \<lparr>content = [\<lparr>type' = ''text'', text' = ''Error: '' @ error_text x\<rparr>],
                isError = Some True\<rparr>)
   \<and> (opt_prop args ''data'' = JUndefined \<longrightarrow>
         snd (call_tool h c e ''store_blob'' args) =
           Inr \<lparr>content =
                  [\<lparr>type' = ''text'',
                    text' = ''Error: '' @ JSON_stringify (JArr
                      (if zod_type args \<noteq> ''object'' then [invalid_type ''object'' args []]
                       else invalid_type ''string'' JUndefined [''data'']
                            # z_number_optional ''epochs'' (opt_prop args ''epochs'')))\<rparr>],
                isError = Some True\<rparr>)
   \<and> (opt_prop args ''blobId'' = JUndefined
        \<and> (name = ''get_blob'' \<or> name = ''delete_blob'' \<or> name = ''get_blob_info'') \<longrightarrow>
         snd (call_tool h c e name args) =
           Inr \<lparr>content =
                  [\<lparr>type' = ''text'',
                    text' = ''Error: '' @ JSON_stringify (JArr
                      (if zod_type args \<noteq> ''object'' then [invalid_type ''object'' args []]
                       else [invalid_type ''string'' JUndefined [''blobId'']]))\<rparr>],
                isError = Some True\<rparr>)
   \<and> (\<forall>x. StoreBlobSchema_parse args = Inl x \<longrightarrow>
         snd (call_tool h c e ''store_blob'' args) =
           Inr \<lparr>content = [\<lparr>type' = ''text'', text' = ''Error: '' @ error_text x\<rparr>],
                isError = Some True\<rparr>)
   \<and> (\<forall>x. BlobIdSchema_parse args = Inl x
        \<and> (name = ''get_blob'' \<or> name = ''delete_blob'' \<or> name = ''get_blob_info'') \<longrightarrow>
         snd (call_tool h c e name args) =
           Inr \<lparr>content = [\<lparr>type' = ''text'', text' = ''Error: '' @ error_text x\<rparr>],
                isError = Some True\<rparr>)
   \<and> (\<forall>x. ListBlobsSchema_parse args = Inl x \<longrightarrow>
         snd (call_tool h c e ''list_blobs'' args) =
           Inr \<lparr>content = [\<lparr>type' = ''text'', text' = ''Error: '' @ error_text x\<rparr>],
                isError = Some True\<rparr>)"
proof -
  have missing: "\<exists>m. snd (call_tool h c e ''store_blob'' args) =
            Inr \<lparr>content = [\<lparr>type' = ''text'', text' = ''Error: '' @ m\<rparr>], isError = Some True\<rparr>"
    if "opt_prop args ''data'' = JUndefined"
  proof -
    from that obtain x where "StoreBlobSchema_parse args = Inl x"
      using StoreBlobSchema_missing_data by blast
    then have "snd (call_tool_try h c e ''store_blob'' args) = Inl x"
      by (simp add: call_tool_try_store_blob)
    then show ?thesis
      using call_tool_catches by blast
  qed
  have unknown: "snd (call_tool h c e name args) =
           Inr \<lparr>content = [\<lparr>type' = ''text'', text' = ''Error: Unknown tool: '' @ name\<rparr>],
                isError = Some True\<rparr>"
    if "name \<noteq> ''store_blob'' \<and> name \<noteq> ''get_blob'' \<and> name \<noteq> ''list_blobs''
        \<and> name \<noteq> ''delete_blob'' \<and> name \<noteq> ''get_blob_info''"
  proof -
    from that have "snd (call_tool_try h c e name args) = Inl (JsError (''Unknown tool: '' @ name))"
      by (simp add: call_tool_try_unknown)
    from call_tool_catches [OF this] show ?thesis by simp
  qed
  have store: "snd (call_tool h c e ''store_blob'' args) =
           Inr \<lparr>content = [\<lparr>type' = ''text'', text' = ''Error: '' @ error_text x\<rparr>],
                isError = Some True\<rparr>"
    if "StoreBlobSchema_parse args = Inr (d, ep)"
      and "snd (storeBlob h c e d (Some (case ep of None \<Rightarrow> 5 | Some n \<Rightarrow> n))) = Inl x" for d ep x
  proof -
    from that have "snd (call_tool_try h c e ''store_blob'' args) = Inl x"
      by (cases "storeBlob h c e d (Some (case ep of None \<Rightarrow> 5 | Some n \<Rightarrow> n))")
        (auto simp: call_tool_try_store_blob)
    then show ?thesis by (rule call_tool_catches)
  qed
  have fetch: "snd (call_tool h c e ''get_blob'' args) =
           Inr \<lparr>content = [\<lparr>type' = ''text'', text' = ''Error: '' @ error_text x\<rparr>],
                isError = Some True\<rparr>"
    if "BlobIdSchema_parse args = Inr bid" and "snd (getBlob h c e bid) = Inl x" for bid x
  proof -
    from that have "snd (call_tool_try h c e ''get_blob'' args) = Inl x"
      by (cases "getBlob h c e bid") (auto simp: call_tool_try_get_blob)
    then show ?thesis by (rule call_tool_catches)
  qed
  have inspect: "snd (call_tool h c e ''get_blob_info'' args) =
           Inr \<lparr>content = [\<lparr>type' = ''text'', text' = ''Error: '' @ error_text x\<rparr>],
                isError = Some True\<rparr>"
    if "BlobIdSchema_parse args = Inr bid" and "snd (getBlobInfo h c e bid) = Inl x" for bid x
  proof -
    from that have "snd (call_tool_try h c e ''get_blob_info'' args) = Inl x"
      by (cases "getBlobInfo h c e bid") (auto simp: call_tool_try_get_blob_info)
    then show ?thesis by (rule call_tool_catches)
  qed
  have bad_store: "snd (call_tool h c e ''store_blob'' args) =
           Inr \<lparr>content = [\<lparr>type' = ''text'', text' = ''Error: '' @ error_text x\<rparr>],
                isError = Some True\<rparr>"
    if "StoreBlobSchema_parse args = Inl x" for x
  proof -
    from that have "snd (call_tool_try h c e ''store_blob'' args) = Inl x"
      by (simp add: call_tool_try_store_blob)
    then show ?thesis by (rule call_tool_catches)
  qed
  have bad_id: "snd (call_tool h c e name args) =
           Inr \<lparr>content = [\<lparr>type' = ''text'', text' = ''Error: '' @ error_text x\<rparr>],
                isError = Some True\<rparr>"
    if "BlobIdSchema_parse args = Inl x
        \<and> (name = ''get_blob'' \<or> name = ''delete_blob'' \<or> name = ''get_blob_info'')" for x
  proof -
    from that have "snd (call_tool_try h c e name args) = Inl x"
      using call_tool_try_invalid_blobId by blast
    then show ?thesis by (rule call_tool_catches)
  qed
  have bad_list: "snd (call_tool h c e ''list_blobs'' args) =
           Inr \<lparr>content = [\<lparr>type' = ''text'', text' = ''Error: '' @ error_text x\<rparr>],
                isError = Some True\<rparr>"
    if "ListBlobsSchema_parse args = Inl x" for x
  proof -
    from that have "snd (call_tool_try h c e ''list_blobs'' args) = Inl x"
      by (simp add: call_tool_try_list_blobs)
    then show ?thesis by (rule call_tool_catches)
  qed
  have no_data: "snd (call_tool h c e ''store_blob'' args) =
           Inr \<lparr>content =
                  [\<lparr>type' = ''text'',
                    text' = ''Error: '' @ JSON_stringify (JArr
                      (if zod_type args \<noteq> ''object'' then [invalid_type ''object'' args []]
                       else invalid_type ''string'' JUndefined [''data'']
                            # z_number_optional ''epochs'' (opt_prop args ''epochs'')))\<rparr>],
                isError = Some True\<rparr>"
    if "opt_prop args ''data'' = JUndefined"
    using bad_store [OF StoreBlobSchema_missing_data_issues [OF that]]
    by (simp only: error_text_ZodError)
  have no_id: "snd (call_tool h c e name args) =
           Inr \<lparr>content =
                  [\<lparr>type' = ''text'',
                    text' = ''Error: '' @ JSON_stringify (JArr
                      (if zod_type args \<noteq> ''object'' then [invalid_type ''object'' args []]
                       else [invalid_type ''string'' JUndefined [''blobId'']]))\<rparr>],
                isError = Some True\<rparr>"
    if "opt_prop args ''blobId'' = JUndefined
        \<and> (name = ''get_blob'' \<or> name = ''delete_blob'' \<or> name = ''get_blob_info'')"
  proof -
    from that have "BlobIdSchema_parse args =
           Inl (ZodError
             (if zod_type args \<noteq> ''object'' then [invalid_type ''object'' args []]
              else [invalid_type ''string'' JUndefined [''blobId'']]))
        \<and> (name = ''get_blob'' \<or> name = ''delete_blob'' \<or> name = ''get_blob_info'')"
      using BlobIdSchema_missing_blobId by blast
    from bad_id [OF this] show ?thesis
      by (simp only: error_text_ZodError)
  qed
  show ?thesis
    apply (intro conjI allI impI)
    subgoal by (rule call_tool_returns)
    subgoal by (rule call_tool_catches)
    subgoal by (rule missing)
    subgoal by (rule unknown)
    subgoal by (elim conjE) (rule store)
    subgoal by (elim conjE) (rule fetch)
    subgoal by (elim conjE) (rule inspect)
    subgoal by (rule no_data)
    subgoal by (rule no_id)
    subgoal by (rule bad_store)
    subgoal by (rule bad_id)
    subgoal by (rule bad_list)
    done
qed

theorem call_tool_never_throws_witness:
  "snd (call_tool default_heap default_client offline ''store_blob'' (JObj [])) =
     Inr \<lparr>content = [\<lparr>type' = ''text'',
                        text' = ''Error: '' @ JSON_stringify (JArr [invalid_type ''string'' JUndefined [''data'']])\<rparr>],
          isError = Some True\<rparr>
   \<and> snd (call_tool default_heap default_client offline ''nonexistent_tool'' (JObj [])) =
       Inr \<lparr>content = [\<lparr>type' = ''text'', text' = ''Error: Unknown tool: nonexistent_tool''\<rparr>],
            isError = Some True\<rparr>
   \<and> snd (call_tool default_heap default_client offline ''get_blob'' (JObj [(''blobId'', JStr ''abc'')])) =
       Inr \<lparr>content = [\<lparr>type' = ''text'', text' = ''Error: Failed to retrieve blob: Network Error''\<rparr>],
            isError = Some True\<rparr>
   \<and> snd (call_tool default_heap default_client offline ''get_blob_info'' (JObj [(''blobId'', JStr ''abc'')])) =
       Inr \<lparr>content = [\<lparr>type' = ''text'', text' = ''Error: Failed to get blob info: Network Error''\<rparr>],
            isError = Some True\<rparr>
   \<and> snd (call_tool default_heap default_client offline ''store_blob'' (JObj [(''data'', JStr ''SGVsbG8='')])) =
       Inr \<lparr>content = [\<lparr>type' = ''text'', text' = ''Error: Failed to store blob: Network Error''\<rparr>],
            isError = Some True\<rparr>
   \<and> snd (call_tool default_heap default_client offline ''get_blob'' (JObj [])) =
       Inr \<lparr>content = [\<lparr>type' = ''text'',
                          text' = ''Error: '' @ JSON_stringify (JArr [invalid_type ''string'' JUndefined [''blobId'']])\<rparr>],
            isError = Some True\<rparr>
   \<and> snd (call_tool default_heap default_client offline ''delete_blob'' (JObj [(''id'', JStr ''abc'')])) =
       Inr \<lparr>content = [\<lparr>type' = ''text'',
                          text' = ''Error: '' @ JSON_stringify (JArr [invalid_type ''string'' JUndefined [''blobId'']])\<rparr>],
            isError = Some True\<rparr>
   \<and> snd (call_tool default_heap default_client offline ''get_blob_info'' JUndefined) =
       Inr \<lparr>content = [\<lparr>type' = ''text'',
                          text' = ''Error: '' @ JSON_stringify (JArr [invalid_type ''object'' JUndefined []])\<rparr>],
            isError = Some True\<rparr>"
proof -
  have parse: "StoreBlobSchema_parse (JObj []) = Inl (ZodError [invalid_type ''string'' JUndefined [''data'']])"
    by (simp add: StoreBlobSchema_parse_def z_string_def z_number_optional_def)
  then have "snd (call_tool_try default_heap default_client offline ''store_blob'' (JObj [])) =
      Inl (ZodError [invalid_type ''string'' JUndefined [''data'']])"
    by (simp add: call_tool_try_store_blob)
  with call_tool_never_throws [of default_heap default_client offline "''store_blob''" "JObj []"]
  have 1: "snd (call_tool default_heap default_client offline ''store_blob'' (JObj [])) =
     Inr \<lparr>content = [\<lparr>type' = ''text'',
                        text' = ''Error: '' @ JSON_stringify (JArr [invalid_type ''string'' JUndefined [''data'']])\<rparr>],
          isError = Some True\<rparr>"
    by (simp add: ZodError_def)
  from call_tool_never_throws [of default_heap default_client offline "''nonexistent_tool''" "JObj []"]
  have 2: "snd (call_tool default_heap default_client offline ''nonexistent_tool'' (JObj [])) =
       Inr \<lparr>content = [\<lparr>type' = ''text'', text' = ''Error: Unknown tool: nonexistent_tool''\<rparr>],
            isError = Some True\<rparr>"
    by simp
  have bid: "BlobIdSchema_parse (JObj [(''blobId'', JStr ''abc'')]) = Inr ''abc''"
    by (simp add: BlobIdSchema_parse_def)
  have off: "snd (getBlob default_heap default_client offline ''abc'') =
      Inl (JsError ''Failed to retrieve blob: Network Error'')"
    by (simp add: getBlob_def offline_def getBlob_catch_cases)
  from call_tool_never_throws [of default_heap default_client offline "''get_blob''"
      "JObj [(''blobId'', JStr ''abc'')]"] bid off
  have 3: "snd (call_tool default_heap default_client offline ''get_blob'' (JObj [(''blobId'', JStr ''abc'')])) =
       Inr \<lparr>content = [\<lparr>type' = ''text'', text' = ''Error: Failed to retrieve blob: Network Error''\<rparr>],
            isError = Some True\<rparr>"
    by simp
  have off_info: "snd (getBlobInfo default_heap default_client offline ''abc'') =
      Inl (JsError ''Failed to get blob info: Network Error'')"
    by (simp add: getBlobInfo_def offline_def getBlobInfo_catch_cases)
  from call_tool_never_throws [of default_heap default_client offline "''get_blob_info''"
      "JObj [(''blobId'', JStr ''abc'')]"] bid off_info
  have 4: "snd (call_tool default_heap default_client offline ''get_blob_info'' (JObj [(''blobId'', JStr ''abc'')])) =
       Inr \<lparr>content = [\<lparr>type' = ''text'', text' = ''Error: Failed to get blob info: Network Error''\<rparr>],
            isError = Some True\<rparr>"
    by simp
  have payload: "StoreBlobSchema_parse (JObj [(''data'', JStr ''SGVsbG8='')]) = Inr (''SGVsbG8='', None)"
    by (simp add: StoreBlobSchema_parse_def)
  have off_store: "snd (storeBlob default_heap default_client offline ''SGVsbG8='' (Some 5)) =
      Inl (JsError ''Failed to store blob: Network Error'')"
    by (simp add: storeBlob_def storeBlob_try_def blobData_Hello offline_def storeBlob_catch_def
        remote_or_transport_None)
  from call_tool_never_throws [of default_heap default_client offline "''store_blob''"
      "JObj [(''data'', JStr ''SGVsbG8='')]"] payload off_store
  have 5: "snd (call_tool default_heap default_client offline ''store_blob'' (JObj [(''data'', JStr ''SGVsbG8='')])) =
       Inr \<lparr>content = [\<lparr>type' = ''text'', text' = ''Error: Failed to store blob: Network Error''\<rparr>],
            isError = Some True\<rparr>"
    by simp
  from call_tool_never_throws [of default_heap default_client offline "''get_blob''" "JObj []"]
  have 6: "snd (call_tool default_heap default_client offline ''get_blob'' (JObj [])) =
       Inr \<lparr>content = [\<lparr>type' = ''text'',
                          text' = ''Error: '' @ JSON_stringify (JArr [invalid_type ''string'' JUndefined [''blobId'']])\<rparr>],
            isError = Some True\<rparr>"
    by simp
  from call_tool_never_throws [of default_heap default_client offline "''delete_blob''"
      "JObj [(''id'', JStr ''abc'')]"]
  have 7: "snd (call_tool default_heap default_client offline ''delete_blob'' (JObj [(''id'', JStr ''abc'')])) =
       Inr \<lparr>content = [\<lparr>type' = ''text'',
                          text' = ''Error: '' @ JSON_stringify (JArr [invalid_type ''string'' JUndefined [''blobId'']])\<rparr>],
            isError = Some True\<rparr>"
    by simp
  from call_tool_never_throws [of default_heap default_client offline "''get_blob_info''" JUndefined]
  have 8: "snd (call_tool default_heap default_client offline ''get_blob_info'' JUndefined) =
       Inr \<lparr>content = [\<lparr>type' = ''text'',
                          text' = ''Error: '' @ JSON_stringify (JArr [invalid_type ''object'' JUndefined []])\<rparr>],
            isError = Some True\<rparr>"
    by simp
  from 1 2 3 4 5 6 7 8 show ?thesis by blast
qed

text \<open>
  C4. A resource read of a URI that is neither \<^verbatim>\<open>walrus://status\<close> nor
  \<^verbatim>\<open>walrus://config\<close> throws: the handler returns no envelope, and the error's
  message names the URI (twice: \<^verbatim>\<open>Failed to read resource\<close> and
  \<^verbatim>\<open>Unknown resource\<close>), where a tool call returns an envelope whatever its name and
  arguments. The fault ends that request only: it is answered with an error reply, the
  store is as before, the requests before and after it are answered as they would be
  without it, and the process, once connected, is serving and has answered every request.
\<close>

theorem read_resource_unknown_uri_faults:
  "u \<noteq> ''walrus://status'' \<and> u \<noteq> ''walrus://config'' \<longrightarrow>
     read_resource h c u =
       (Inl (JsError (''Failed to read resource '' @ u @ '': Unknown resource: '' @ u)), h)
     \<and> (\<exists>r. snd (call_tool h c e name args) = Inr r)
     \<and> handle h c e (ReadResourceRequest u) =
         (ErrorReply (''Failed to read resource '' @ u @ '': Unknown resource: '' @ u), h)
     \<and> serve h c (before @ (e, ReadResourceRequest u) # after) =
         (fst (serve h c before)
            @ ErrorReply (''Failed to read resource '' @ u @ '': Unknown resource: '' @ u)
            # fst (serve (snd (serve h c before)) c after),
          snd (serve (snd (serve h c before)) c after))
     \<and> (\<exists>rs. main penv (Inr ()) (before @ (e, ReadResourceRequest u) # after) = Serving rs
           \<and> length rs = length before + 1 + length after
           \<and> rs ! length before =
               ErrorReply (''Failed to read resource '' @ u @ '': Unknown resource: '' @ u))"
proof
  assume u: "u \<noteq> ''walrus://status'' \<and> u \<noteq> ''walrus://config''"
  let ?fault = "ErrorReply (''Failed to read resource '' @ u @ '': Unknown resource: '' @ u)"
  have rr: "read_resource h c u =
       (Inl (JsError (''Failed to read resource '' @ u @ '': Unknown resource: '' @ u)), h)" for h c
    using u by (simp add: read_resource_unknown)
  have hd: "handle h c e (ReadResourceRequest u) = (?fault, h)" for h c
    by (simp add: handle_def rr)
  have one: "serve h c ((e, ReadResourceRequest u) # after) =
      (?fault # fst (serve h c after), snd (serve h c after))" for h c
    by (simp only: serve_Cons hd fst_conv snd_conv)
  have sv: "serve h c (before @ (e, ReadResourceRequest u) # after) =
         (fst (serve h c before) @ ?fault # fst (serve (snd (serve h c before)) c after),
          snd (serve (snd (serve h c before)) c after))" for h c
    by (simp only: serve_append [of h c before] one fst_conv snd_conv)
  have mn: "\<exists>rs. main penv (Inr ()) (before @ (e, ReadResourceRequest u) # after) = Serving rs
           \<and> length rs = length before + 1 + length after
           \<and> rs ! length before = ?fault"
  proof -
    obtain c0 h0 where new: "WalrusClient_new [] None penv = (c0, h0)"
      by (cases "WalrusClient_new [] None penv")
    let ?rs = "fst (serve h0 c0 before) @ ?fault # fst (serve (snd (serve h0 c0 before)) c0 after)"
    have "main penv (Inr ()) (before @ (e, ReadResourceRequest u) # after) = Serving ?rs"
      by (simp add: main_def new sv)
    moreover have "length ?rs = length before + 1 + length after"
      by (simp add: length_serve)
    moreover have "?rs ! length before = ?fault"
      by (simp add: nth_append length_serve)
    ultimately show ?thesis by blast
  qed
  from rr hd sv mn call_tool_returns [of h c e name args]
  show "read_resource h c u =
       (Inl (JsError (''Failed to read resource '' @ u @ '': Unknown resource: '' @ u)), h)
     \<and> (\<exists>r. snd (call_tool h c e name args) = Inr r)
     \<and> handle h c e (ReadResourceRequest u) = (?fault, h)
     \<and> serve h c (before @ (e, ReadResourceRequest u) # after) =
         (fst (serve h c before) @ ?fault # fst (serve (snd (serve h c before)) c after),
          snd (serve (snd (serve h c before)) c after))
     \<and> (\<exists>rs. main penv (Inr ()) (before @ (e, ReadResourceRequest u) # after) = Serving rs
           \<and> length rs = length before + 1 + length after
           \<and> rs ! length before = ?fault)"
    by blast
qed

theorem read_resource_unknown_uri_faults_witness:
  "read_resource default_heap default_client ''walrus://nope'' =
     (Inl (JsError ''Failed to read resource walrus://nope: Unknown resource: walrus://nope''), default_heap)
   \<and> main [] (Inr ())
        [(offline, ReadResourceRequest ''walrus://nope''), (offline, CallToolRequest ''nope'' JNull)] =
       Serving
         [ErrorReply ''Failed to read resource walrus://nope: Unknown resource: walrus://nope'',
          CallToolReply \<lparr>content = [\<lparr>type' = ''text'', text' = ''Error: Unknown tool: nope''\<rparr>],
                         isError = Some True\<rparr>]"
proof -
  have u: "''walrus://nope'' \<noteq> ''walrus://status'' \<and> ''walrus://nope'' \<noteq> ''walrus://config''"
    by simp
  note inst = read_resource_unknown_uri_faults
    [of "''walrus://nope''" default_heap default_client offline "''nope''" JNull "[]"
       "[(offline, CallToolRequest ''nope'' JNull)]" "[]"]
  from inst u have 1: "read_resource default_heap default_client ''walrus://nope'' =
     (Inl (JsError ''Failed to read resource walrus://nope: Unknown resource: walrus://nope''), default_heap)"
    by simp
  from inst u have sv: "serve default_heap default_client
        ([] @ (offline, ReadResourceRequest ''walrus://nope'') # [(offline, CallToolRequest ''nope'' JNull)]) =
         (fst (serve default_heap default_client [])
            @ ErrorReply (''Failed to read resource '' @ ''walrus://nope'' @ '': Unknown resource: '' @ ''walrus://nope'')
            # fst (serve (snd (serve default_heap default_client [])) default_client
                  [(offline, CallToolRequest ''nope'' JNull)]),
          snd (serve (snd (serve default_heap default_client [])) default_client
                  [(offline, CallToolRequest ''nope'' JNull)]))"
    by blast
  have tool: "snd (call_tool default_heap default_client offline ''nope'' JNull) =
      Inr \<lparr>content = [\<lparr>type' = ''text'', text' = ''Error: Unknown tool: nope''\<rparr>], isError = Some True\<rparr>"
    by (simp add: call_tool_def call_tool_try_unknown)
  have new: "WalrusClient_new [] None [] = (default_client, default_heap)"
    by (simp add: default_client_def default_heap_def)
  from sv have 2: "main [] (Inr ())
        [(offline, ReadResourceRequest ''walrus://nope''), (offline, CallToolRequest ''nope'' JNull)] =
       Serving
         [ErrorReply ''Failed to read resource walrus://nope: Unknown resource: walrus://nope'',
          CallToolReply \<lparr>content = [\<lparr>type' = ''text'', text' = ''Error: Unknown tool: nope''\<rparr>],
                         isError = Some True\<rparr>]"
    by (simp add: main_def new handle_def tool)
  from 1 2 show ?thesis by blast
qed

text \<open>
  C5. For every identifier, \<^verbatim>\<open>getBlob\<close> makes one read request, and: when the request
  succeeds it returns the bytes of the answer, base64-encoded (decoding the text gives the
  bytes back); when the remote answers 404 it throws \<^verbatim>\<open>Blob not found:\<close> with the
  requested identifier; on every other failure of the request it throws
  \<^verbatim>\<open>Failed to retrieve blob:\<close>. The claim has that error carry the remote's error
  message when there is one. The \<^verbatim>\<open>catch\<close> block does read
  \<^verbatim>\<open>error.response?.data?.error\<close>, but the request asks for an
  \<^verbatim>\<open>arraybuffer\<close>, so \<^verbatim>\<open>data\<close> is a buffer and the read is always
  \<^verbatim>\<open>undefined\<close>: whatever the remote answers, the error carries the text of the
  transport error. The same \<^verbatim>\<open>catch\<close> expression in \<^verbatim>\<open>storeBlob\<close>, where the
  answer is parsed, does carry the remote's message.
\<close>

theorem getBlob_outcomes:
  "fst (getBlob h c e bid) = [HttpGet (aggregatorUrl (h ! config c) @ ''/v1/'' @ bid)]
   \<and> (\<forall>r. http_get e (aggregatorUrl (h ! config c) @ ''/v1/'' @ bid) = Inr r \<longrightarrow>
         snd (getBlob h c e bid) = Inr (base64_encode (data r)))
   \<and> (\<forall>msg r. http_get e (aggregatorUrl (h ! config c) @ ''/v1/'' @ bid) = Inl (GetAxiosError msg (Some r))
         \<and> status r = 404 \<longrightarrow>
         snd (getBlob h c e bid) = Inl (JsError (''Blob not found: '' @ bid)))
   \<and> (\<forall>msg r. http_get e (aggregatorUrl (h ! config c) @ ''/v1/'' @ bid) = Inl (GetAxiosError msg (Some r))
         \<and> status r \<noteq> 404 \<longrightarrow>
         snd (getBlob h c e bid) = Inl (JsError (''Failed to retrieve blob: '' @ msg)))
   \<and> (\<forall>msg. http_get e (aggregatorUrl (h ! config c) @ ''/v1/'' @ bid) = Inl (GetAxiosError msg None) \<longrightarrow>
         snd (getBlob h c e bid) = Inl (JsError (''Failed to retrieve blob: '' @ msg)))
   \<and> (\<forall>m. http_get e (aggregatorUrl (h ! config c) @ ''/v1/'' @ bid) = Inl (GetError m) \<longrightarrow>
         snd (getBlob h c e bid) = Inl (JsError (''Failed to retrieve blob: '' @ m)))
   \<and> (\<forall>bs. base64_decode (base64_encode bs) = bs)"
  by (simp add: getBlob_def Let_def getBlob_catch_cases buffer_body_def base64_roundtrip)

theorem getBlob_outcomes_witness:
  "snd (getBlob default_heap default_client
          (aggregator_get (Inl (GetAxiosError ''Request failed with status code 500''
             (Some \<lparr>status = 500,
                    data = bytes_of (JSON_stringify (JObj [(''error'', JStr ''storage node down'')])),
                    headers = [(''content-type'', ''application/json'')]\<rparr>))))
          ''abc'') =
     Inl (JsError ''Failed to retrieve blob: Request failed with status code 500'')
   \<and> snd (storeBlob default_heap default_client
            (publisher_rejects (AxiosError ''Request failed with status code 500''
               (Some \<lparr>status = 500, data = JObj [(''error'', JStr ''storage node down'')],
                      headers = [(''content-type'', ''application/json'')]\<rparr>)))
            ''SGVsbG8='' None) =
       Inl (JsError ''Failed to store blob: storage node down'')
   \<and> snd (getBlob default_heap default_client
            (aggregator_get (Inr \<lparr>status = 200, data = bytes_of ''Hello'', headers = []\<rparr>)) ''abc'') =
       Inr ''SGVsbG8=''
   \<and> snd (getBlob default_heap default_client
            (aggregator_get (Inl (GetAxiosError ''Request failed with status code 404''
               (Some \<lparr>status = 404, data = [], headers = []\<rparr>)))) ''abc'') =
       Inl (JsError ''Blob not found: abc'')
   \<and> snd (getBlob default_heap default_client offline ''abc'') =
       Inl (JsError ''Failed to retrieve blob: Network Error'')
   \<and> snd (getBlob default_heap default_client (aggregator_get (Inl (GetError ''socket hang up''))) ''abc'') =
       Inl (JsError ''Failed to retrieve blob: socket hang up'')"
proof -
  let ?url = "aggregatorUrl (default_heap ! config default_client) @ ''/v1/'' @ ''abc''"
  let ?ok = "\<lparr>status = 200, data = bytes_of ''Hello'', headers = []\<rparr>"
  let ?missing = "\<lparr>status = 404, data = [] :: byte list, headers = []\<rparr>"
  let ?down = "\<lparr>status = 500,
                data = bytes_of (JSON_stringify (JObj [(''error'', JStr ''storage node down'')])),
                headers = [(''content-type'', ''application/json'')]\<rparr>"
  let ?refused = "\<lparr>status = 500, data = JObj [(''error'', JStr ''storage node down'')],
                   headers = [(''content-type'', ''application/json'')]\<rparr>"
  have get: "http_get (aggregator_get outcome) ?url = outcome" for outcome
    by (simp add: aggregator_get_def)
  have off: "http_get offline ?url = Inl (GetAxiosError ''Network Error'' None)"
    by (simp add: offline_def)
  have status_down: "status ?down \<noteq> 404"
    by simp
  have status_missing: "status ?missing = 404"
    by simp
  note answered = getBlob_outcomes [THEN conjunct2, THEN conjunct1, rule_format]
  note not_found = getBlob_outcomes [THEN conjunct2, THEN conjunct2, THEN conjunct1, rule_format]
  note other_status =
    getBlob_outcomes [THEN conjunct2, THEN conjunct2, THEN conjunct2, THEN conjunct1, rule_format]
  note no_answer =
    getBlob_outcomes [THEN conjunct2, THEN conjunct2, THEN conjunct2, THEN conjunct2, THEN conjunct1,
      rule_format]
  note plain_error =
    getBlob_outcomes [THEN conjunct2, THEN conjunct2, THEN conjunct2, THEN conjunct2, THEN conjunct2,
      THEN conjunct1, rule_format]
  have "snd (getBlob default_heap default_client
      (aggregator_get (Inl (GetAxiosError ''Request failed with status code 500'' (Some ?down)))) ''abc'') =
       Inl (JsError (''Failed to retrieve blob: '' @ ''Request failed with status code 500''))"
    by (rule other_status [OF conjI [OF get status_down]])
  then have 0: "snd (getBlob default_heap default_client
      (aggregator_get (Inl (GetAxiosError ''Request failed with status code 500'' (Some ?down)))) ''abc'') =
       Inl (JsError ''Failed to retrieve blob: Request failed with status code 500'')"
    by (simp only: append.simps)
  have "snd (storeBlob default_heap default_client
      (publisher_rejects (AxiosError ''Request failed with status code 500'' (Some ?refused)))
      ''SGVsbG8='' None) =
       Inl (storeBlob_catch (AxiosError ''Request failed with status code 500'' (Some ?refused)))"
    by (rule storeBlob_put_fails [OF blobData_Hello publisher_rejects_put])
  then have sibling: "snd (storeBlob default_heap default_client
      (publisher_rejects (AxiosError ''Request failed with status code 500'' (Some ?refused)))
      ''SGVsbG8='' None) = Inl (JsError ''Failed to store blob: storage node down'')"
    by (simp add: storeBlob_catch_remote)
  have "snd (getBlob default_heap default_client (aggregator_get (Inr ?ok)) ''abc'') =
      Inr (base64_encode (data ?ok))"
    by (rule answered [OF get])
  then have 1: "snd (getBlob default_heap default_client (aggregator_get (Inr ?ok)) ''abc'') = Inr ''SGVsbG8=''"
    by (simp add: encode_Hello)
  have "snd (getBlob default_heap default_client
      (aggregator_get (Inl (GetAxiosError ''Request failed with status code 404'' (Some ?missing)))) ''abc'') =
       Inl (JsError (''Blob not found: '' @ ''abc''))"
    by (rule not_found [OF conjI [OF get status_missing]])
  then have 2: "snd (getBlob default_heap default_client
      (aggregator_get (Inl (GetAxiosError ''Request failed with status code 404'' (Some ?missing)))) ''abc'') =
       Inl (JsError ''Blob not found: abc'')"
    by (simp only: append.simps)
  have "snd (getBlob default_heap default_client offline ''abc'') =
       Inl (JsError (''Failed to retrieve blob: '' @ ''Network Error''))"
    by (rule no_answer [OF off])
  then have 4: "snd (getBlob default_heap default_client offline ''abc'') =
       Inl (JsError ''Failed to retrieve blob: Network Error'')"
    by (simp only: append.simps)
  have "snd (getBlob default_heap default_client (aggregator_get (Inl (GetError ''socket hang up''))) ''abc'') =
       Inl (JsError (''Failed to retrieve blob: '' @ ''socket hang up''))"
    by (rule plain_error [OF get])
  then have 5: "snd (getBlob default_heap default_client (aggregator_get (Inl (GetError ''socket hang up''))) ''abc'') =
       Inl (JsError ''Failed to retrieve blob: socket hang up'')"
    by (simp only: append.simps)
  show ?thesis
    by (intro conjI 0 sibling 1 2 4 5)
qed

text \<open>
  C6. For every identifier, \<^verbatim>\<open>getBlobInfo\<close> makes one headers-only request, and: when
  the request succeeds it returns the record whose size (and encoded size) is
  \<^verbatim>\<open>parseInt\<close> of the \<^verbatim>\<open>content-length\<close> header, and whose \<open>certified\<close> is
  true whatever the answer holds. That size is 0 when the header is absent (or empty); it is
  \<open>n\<close> when the header is the decimal numeral of an \<open>n\<close> below \<open>2^53\<close>; and for every
  numeral it is the double nearest to the number, so that \<^verbatim>\<open>9007199254740993\<close> gives
  9007199254740992. When the remote answers 404 it throws
  \<^verbatim>\<open>Blob not found:\<close> with the identifier; on every other failure it throws
  \<^verbatim>\<open>Failed to get blob info:\<close> with the remote's \<^verbatim>\<open>error\<close> text or the text of
  the transport error.
\<close>

theorem getBlobInfo_outcomes:
  "fst (getBlobInfo h c e bid) = [HttpHead (aggregatorUrl (h ! config c) @ ''/v1/'' @ bid)]
   \<and> (\<forall>r. http_head e (aggregatorUrl (h ! config c) @ ''/v1/'' @ bid) = Inr r \<longrightarrow>
         snd (getBlobInfo h c e bid) =
           Inr \<lparr>blobId = JStr bid, size' = parseInt (content_length (headers r)),
                encodedSize = parseInt (content_length (headers r)), storageId = JStr bid,
                certified = True, certifiedEpoch = JUndefined, endEpoch = JUndefined\<rparr>)
   \<and> (\<forall>hs. map_of hs ''content-length'' = None \<or> map_of hs ''content-length'' = Some [] \<longrightarrow>
         parseInt (content_length hs) = JNum 0)
   \<and> (\<forall>hs n. n < 2 ^ 53 \<and> map_of hs ''content-length'' = Some (show_nat n) \<longrightarrow>
         parseInt (content_length hs) = JNum (int n))
   \<and> (\<forall>hs n. map_of hs ''content-length'' = Some (show_nat n) \<longrightarrow>
         parseInt (content_length hs) =
           (case to_double n of None \<Rightarrow> JInf False | Some m \<Rightarrow> JNum (int m)))
   \<and> (\<forall>msg r. http_head e (aggregatorUrl (h ! config c) @ ''/v1/'' @ bid) = Inl (AxiosError msg (Some r))
         \<and> status r = 404 \<longrightarrow>
         snd (getBlobInfo h c e bid) = Inl (JsError (''Blob not found: '' @ bid)))
   \<and> (\<forall>msg r. http_head e (aggregatorUrl (h ! config c) @ ''/v1/'' @ bid) = Inl (AxiosError msg (Some r))
         \<and> status r \<noteq> 404 \<longrightarrow>
         snd (getBlobInfo h c e bid) =
           Inl (JsError (''Failed to get blob info: '' @
             (if truthy (opt_prop (data r) ''error'') then to_String (opt_prop (data r) ''error'')
              else msg))))
   \<and> (\<forall>msg. http_head e (aggregatorUrl (h ! config c) @ ''/v1/'' @ bid) = Inl (AxiosError msg None) \<longrightarrow>
         snd (getBlobInfo h c e bid) = Inl (JsError (''Failed to get blob info: '' @ msg)))
   \<and> (\<forall>m. http_head e (aggregatorUrl (h ! config c) @ ''/v1/'' @ bid) = Inl (JsError m) \<longrightarrow>
         snd (getBlobInfo h c e bid) = Inl (JsError (''Failed to get blob info: '' @ m)))"
proof -
  have absent: "parseInt (content_length hs) = JNum 0"
    if "map_of hs ''content-length'' = None \<or> map_of hs ''content-length'' = Some []" for hs
    using that by (auto simp: content_length_def or_default_def parseInt_0)
  have numeral: "parseInt (content_length hs) = JNum (int n)"
    if "n < 2 ^ 53 \<and> map_of hs ''content-length'' = Some (show_nat n)" for hs n
    using that
    by (simp add: content_length_def or_default_def show_nat_not_empty parseInt_show_nat_exact)
  have rounded: "parseInt (content_length hs) =
           (case to_double n of None \<Rightarrow> JInf False | Some m \<Rightarrow> JNum (int m))"
    if "map_of hs ''content-length'' = Some (show_nat n)" for hs n
    using that by (simp add: content_length_def or_default_def show_nat_not_empty parseInt_show_nat)
  have rest: "fst (getBlobInfo h c e bid) = [HttpHead (aggregatorUrl (h ! config c) @ ''/v1/'' @ bid)]
   \<and> (\<forall>r. http_head e (aggregatorUrl (h ! config c) @ ''/v1/'' @ bid) = Inr r \<longrightarrow>
         snd (getBlobInfo h c e bid) =
           Inr \<lparr>blobId = JStr bid, size' = parseInt (content_length (headers r)),
                encodedSize = parseInt (content_length (headers r)), storageId = JStr bid,
                certified = True, certifiedEpoch = JUndefined, endEpoch = JUndefined\<rparr>)
   \<and> (\<forall>msg r. http_head e (aggregatorUrl (h ! config c) @ ''/v1/'' @ bid) = Inl (AxiosError msg (Some r))
         \<and> status r = 404 \<longrightarrow>
         snd (getBlobInfo h c e bid) = Inl (JsError (''Blob not found: '' @ bid)))
   \<and> (\<forall>msg r. http_head e (aggregatorUrl (h ! config c) @ ''/v1/'' @ bid) = Inl (AxiosError msg (Some r))
         \<and> status r \<noteq> 404 \<longrightarrow>
         snd (getBlobInfo h c e bid) =
           Inl (JsError (''Failed to get blob info: '' @
             (if truthy (opt_prop (data r) ''error'') then to_String (opt_prop (data r) ''error'')
              else msg))))
   \<and> (\<forall>msg. http_head e (aggregatorUrl (h ! config c) @ ''/v1/'' @ bid) = Inl (AxiosError msg None) \<longrightarrow>
         snd (getBlobInfo h c e bid) = Inl (JsError (''Failed to get blob info: '' @ msg)))
   \<and> (\<forall>m. http_head e (aggregatorUrl (h ! config c) @ ''/v1/'' @ bid) = Inl (JsError m) \<longrightarrow>
         snd (getBlobInfo h c e bid) = Inl (JsError (''Failed to get blob info: '' @ m)))"
    by (simp add: getBlobInfo_def Let_def getBlobInfo_catch_cases)
  from absent numeral rounded rest show ?thesis by blast
qed

theorem getBlobInfo_outcomes_witness:
  "snd (getBlobInfo default_heap default_client
          (aggregator_head (Inr \<lparr>status = 200, data = JStr [], headers = [(''content-length'', show_nat 1024)]\<rparr>))
          ''abc'') =
     Inr \<lparr>blobId = JStr ''abc'', size' = JNum 1024, encodedSize = JNum 1024, storageId = JStr ''abc'',
          certified = True, certifiedEpoch = JUndefined, endEpoch = JUndefined\<rparr>
   \<and> show_nat 1024 = ''1024''
   \<and> snd (getBlobInfo default_heap default_client
            (aggregator_head (Inr \<lparr>status = 200, data = JStr [],
               headers = [(''content-length'', show_nat 9007199254740993)]\<rparr>)) ''abc'') =
       Inr \<lparr>blobId = JStr ''abc'', size' = JNum 9007199254740992, encodedSize = JNum 9007199254740992,
            storageId = JStr ''abc'', certified = True, certifiedEpoch = JUndefined,
            endEpoch = JUndefined\<rparr>
   \<and> show_nat 9007199254740993 = ''9007199254740993''
   \<and> snd (getBlobInfo default_heap default_client
            (aggregator_head (Inr \<lparr>status = 204, data = JStr [], headers = []\<rparr>)) ''abc'') =
       Inr \<lparr>blobId = JStr ''abc'', size' = JNum 0, encodedSize = JNum 0, storageId = JStr ''abc'',
            certified = True, certifiedEpoch = JUndefined, endEpoch = JUndefined\<rparr>
   \<and> snd (getBlobInfo default_heap default_client
            (aggregator_head (Inl (AxiosError ''Request failed with status code 404''
               (Some \<lparr>status = 404, data = JStr [], headers = []\<rparr>)))) ''abc'') =
       Inl (JsError ''Blob not found: abc'')
   \<and> snd (getBlobInfo default_heap default_client offline ''abc'') =
       Inl (JsError ''Failed to get blob info: Network Error'')"
proof -
  let ?url = "aggregatorUrl (default_heap ! config default_client) @ ''/v1/'' @ ''abc''"
  let ?sized = "\<lparr>status = 200, data = JStr [], headers = [(''content-length'', show_nat 1024)]\<rparr>"
  let ?bare = "\<lparr>status = 204, data = JStr [], headers = []\<rparr>"
  let ?missing = "\<lparr>status = 404, data = JStr [], headers = []\<rparr>"
  have head: "http_head (aggregator_head outcome) ?url = outcome" for outcome
    by (simp add: aggregator_head_def)
  have off: "http_head offline ?url = Inl (AxiosError ''Network Error'' None)"
    by (simp add: offline_def)
  note sized = getBlobInfo_outcomes [of default_heap default_client "aggregator_head (Inr ?sized)" "''abc''"]
  have small: "(1024 :: nat) < 2 ^ 53
      \<and> map_of (headers ?sized) ''content-length'' = Some (show_nat 1024)"
    by simp
  note exact = sized [THEN conjunct2, THEN conjunct2, THEN conjunct2, THEN conjunct1, rule_format]
  from exact [OF small] have len: "parseInt (content_length (headers ?sized)) = JNum (int 1024)" .
  note answered = sized [THEN conjunct2, THEN conjunct1, rule_format, OF head]
  from answered len
  have 1: "snd (getBlobInfo default_heap default_client (aggregator_head (Inr ?sized)) ''abc'') =
     Inr \<lparr>blobId = JStr ''abc'', size' = JNum 1024, encodedSize = JNum 1024, storageId = JStr ''abc'',
          certified = True, certifiedEpoch = JUndefined, endEpoch = JUndefined\<rparr>"
    by simp
  have 2: "show_nat 1024 = ''1024''"
    by (simp add: show_nat.simps)
  note bare = getBlobInfo_outcomes [of default_heap default_client "aggregator_head (Inr ?bare)" "''abc''"]
  have no_header: "map_of (headers ?bare) ''content-length'' = None
      \<or> map_of (headers ?bare) ''content-length'' = Some []"
    by simp
  note absent = bare [THEN conjunct2, THEN conjunct2, THEN conjunct1, rule_format]
  from absent [OF no_header] have none: "parseInt (content_length (headers ?bare)) = JNum 0" .
  note answered_bare = bare [THEN conjunct2, THEN conjunct1, rule_format, OF head]
  from answered_bare none
  have 3: "snd (getBlobInfo default_heap default_client (aggregator_head (Inr ?bare)) ''abc'') =
       Inr \<lparr>blobId = JStr ''abc'', size' = JNum 0, encodedSize = JNum 0, storageId = JStr ''abc'',
            certified = True, certifiedEpoch = JUndefined, endEpoch = JUndefined\<rparr>"
    by simp
  from getBlobInfo_outcomes [of default_heap default_client
      "aggregator_head (Inl (AxiosError ''Request failed with status code 404'' (Some ?missing)))" "''abc''"]
    head
  have 4: "snd (getBlobInfo default_heap default_client
      (aggregator_head (Inl (AxiosError ''Request failed with status code 404'' (Some ?missing)))) ''abc'') =
       Inl (JsError ''Blob not found: abc'')"
    by simp
  from getBlobInfo_outcomes [of default_heap default_client offline "''abc''"] off
  have 5: "snd (getBlobInfo default_heap default_client offline ''abc'') =
       Inl (JsError ''Failed to get blob info: Network Error'')"
    by simp
  let ?big = "\<lparr>status = 200, data = JStr [],
                headers = [(''content-length'', show_nat 9007199254740993)]\<rparr>"
  have "bit_length 9007199254740993 = 54"
    by (simp add: bit_length.simps)
  then have nearest: "to_double 9007199254740993 = Some 9007199254740992"
    by (simp add: to_double_def)
  note big = getBlobInfo_outcomes [of default_heap default_client "aggregator_head (Inr ?big)" "''abc''"]
  have header: "map_of (headers ?big) ''content-length'' = Some (show_nat 9007199254740993)"
    by simp
  note nearest_double =
    big [THEN conjunct2, THEN conjunct2, THEN conjunct2, THEN conjunct2, THEN conjunct1, rule_format]
  from nearest_double [OF header] have "parseInt (content_length (headers ?big)) =
      (case to_double 9007199254740993 of None \<Rightarrow> JInf False | Some m \<Rightarrow> JNum (int m))" .
  then have rounded: "parseInt (content_length (headers ?big)) = JNum 9007199254740992"
    by (simp add: nearest)
  note answered_big = big [THEN conjunct2, THEN conjunct1, rule_format, OF head]
  from answered_big rounded
  have 6: "snd (getBlobInfo default_heap default_client (aggregator_head (Inr ?big)) ''abc'') =
       Inr \<lparr>blobId = JStr ''abc'', size' = JNum 9007199254740992, encodedSize = JNum 9007199254740992,
            storageId = JStr ''abc'', certified = True, certifiedEpoch = JUndefined,
            endEpoch = JUndefined\<rparr>"
    by simp
  have 7: "show_nat 9007199254740993 = ''9007199254740993''"
    by (simp add: show_nat.simps)
  from 1 2 6 7 3 4 5 show ?thesis by blast
qed

text \<open>
  C7, as the code has it. The configuration object that the constructor stores has, for
  the read endpoint, the write endpoint and the system object id: the explicit override
  when one is given and is not empty; else the value of the environment variable when it is
  set and not empty; else the hardcoded default. For the wallet path it has the explicit
  override when one is given and is not empty, and else whatever the environment variable
  holds, which is nothing when the variable is not set: the wallet path has no hardcoded
  default. No request that the process serves changes the stored object.
\<close>

theorem WalrusClient_config_resolution:
  assumes "WalrusClient_new h cfg penv = (c, h')" and "stored = h' ! config c"
  shows
    "(\<forall>s. given cfg aggregatorUrl_given = Some s \<and> s \<noteq> [] \<longrightarrow> aggregatorUrl stored = s)
     \<and> (\<forall>s. \<not> truthy_opt (given cfg aggregatorUrl_given)
           \<and> map_of penv ''WALRUS_AGGREGATOR_URL'' = Some s \<and> s \<noteq> [] \<longrightarrow> aggregatorUrl stored = s)
     \<and> (\<not> truthy_opt (given cfg aggregatorUrl_given)
           \<and> \<not> truthy_opt (map_of penv ''WALRUS_AGGREGATOR_URL'') \<longrightarrow>
           aggregatorUrl stored = ''https://aggregator-devnet.walrus.space'')
     \<and> (\<forall>s. given cfg publisherUrl_given = Some s \<and> s \<noteq> [] \<longrightarrow> publisherUrl stored = s)
     \<and> (\<forall>s. \<not> truthy_opt (given cfg publisherUrl_given)
           \<and> map_of penv ''WALRUS_PUBLISHER_URL'' = Some s \<and> s \<noteq> [] \<longrightarrow> publisherUrl stored = s)
     \<and> (\<not> truthy_opt (given cfg publisherUrl_given)
           \<and> \<not> truthy_opt (map_of penv ''WALRUS_PUBLISHER_URL'') \<longrightarrow>
           publisherUrl stored = ''https://publisher-devnet.walrus.space'')
     \<and> (\<forall>s. given cfg systemObject_given = Some s \<and> s \<noteq> [] \<longrightarrow> systemObject stored = s)
     \<and> (\<forall>s. \<not> truthy_opt (given cfg systemObject_given)
           \<and> map_of penv ''WALRUS_SYSTEM_OBJECT'' = Some s \<and> s \<noteq> [] \<longrightarrow> systemObject stored = s)
     \<and> (\<not> truthy_opt (given cfg systemObject_given)
           \<and> \<not> truthy_opt (map_of penv ''WALRUS_SYSTEM_OBJECT'') \<longrightarrow>
           systemObject stored = ''0x37c0e4d7b36a2f64d51bba262a1791f844cfd88f19c35b5ca709e1a6991e90dc'')
     \<and> (\<forall>s. given cfg wallet_given = Some s \<and> s \<noteq> [] \<longrightarrow> wallet stored = Some s)
     \<and> (\<not> truthy_opt (given cfg wallet_given) \<longrightarrow> wallet stored = map_of penv ''WALRUS_WALLET_PATH'')
     \<and> (\<forall>rqs. snd (serve h' c rqs) ! config c = stored)"
proof -
  from assms(1) have c: "config c = length h" and h': "h' = h @ [initial_config cfg penv]"
    by (auto simp: WalrusClient_new_def)
  from assms(2) c h' have stored: "stored = initial_config cfg penv"
    by simp
  have agg: "aggregatorUrl stored =
      or_default (or_else (given cfg aggregatorUrl_given) (map_of penv ''WALRUS_AGGREGATOR_URL''))
        ''https://aggregator-devnet.walrus.space''"
    by (simp add: stored initial_config_def)
  have pub: "publisherUrl stored =
      or_default (or_else (given cfg publisherUrl_given) (map_of penv ''WALRUS_PUBLISHER_URL''))
        ''https://publisher-devnet.walrus.space''"
    by (simp add: stored initial_config_def)
  have sys: "systemObject stored =
      or_default (or_else (given cfg systemObject_given) (map_of penv ''WALRUS_SYSTEM_OBJECT''))
        ''0x37c0e4d7b36a2f64d51bba262a1791f844cfd88f19c35b5ca709e1a6991e90dc''"
    by (simp add: stored initial_config_def)
  have wal: "wallet stored = or_else (given cfg wallet_given) (map_of penv ''WALRUS_WALLET_PATH'')"
    by (simp add: stored initial_config_def)
  have allocated: "config c < length h'"
    using c h' by simp
  have kept: "snd (serve h' c rqs) ! config c = stored" for rqs
    using serve_keeps_config [OF allocated] assms(2) by simp
  from kept have always: "\<forall>rqs. snd (serve h' c rqs) ! config c = stored"
    by blast
  show ?thesis
    by (rule resolution_chains [OF agg pub sys wal always])
qed

theorem WalrusClient_config_resolution_witness:
  "WalrusClient_new []
     (Some \<lparr>aggregatorUrl_given = Some ''http://localhost:31415'', publisherUrl_given = None,
            systemObject_given = Some [], wallet_given = None\<rparr>)
     [(''WALRUS_PUBLISHER_URL'', ''http://localhost:31416''), (''WALRUS_WALLET_PATH'', ''/home/me/wallet.yaml'')] =
     (\<lparr>config = 0\<rparr>,
      [\<lparr>aggregatorUrl = ''http://localhost:31415'', publisherUrl = ''http://localhost:31416'',
        systemObject = ''0x37c0e4d7b36a2f64d51bba262a1791f844cfd88f19c35b5ca709e1a6991e90dc'',
        wallet = Some ''/home/me/wallet.yaml''\<rparr>])
   \<and> snd (serve
        [\<lparr>aggregatorUrl = ''http://localhost:31415'', publisherUrl = ''http://localhost:31416'',
          systemObject = ''0x37c0e4d7b36a2f64d51bba262a1791f844cfd88f19c35b5ca709e1a6991e90dc'',
          wallet = Some ''/home/me/wallet.yaml''\<rparr>]
        \<lparr>config = 0\<rparr>
        [(offline, ReadResourceRequest ''walrus://config''),
         (offline, CallToolRequest ''delete_blob'' (JObj [(''blobId'', JStr ''abc'')]))]) ! 0 =
       \<lparr>aggregatorUrl = ''http://localhost:31415'', publisherUrl = ''http://localhost:31416'',
        systemObject = ''0x37c0e4d7b36a2f64d51bba262a1791f844cfd88f19c35b5ca709e1a6991e90dc'',
        wallet = Some ''/home/me/wallet.yaml''\<rparr>"
proof -
  let ?ov = "Some \<lparr>aggregatorUrl_given = Some ''http://localhost:31415'', publisherUrl_given = None,
            systemObject_given = Some [], wallet_given = None\<rparr>"
  let ?penv = "[(''WALRUS_PUBLISHER_URL'', ''http://localhost:31416''),
                (''WALRUS_WALLET_PATH'', ''/home/me/wallet.yaml'')]"
  let ?stored = "\<lparr>aggregatorUrl = ''http://localhost:31415'', publisherUrl = ''http://localhost:31416'',
        systemObject = ''0x37c0e4d7b36a2f64d51bba262a1791f844cfd88f19c35b5ca709e1a6991e90dc'',
        wallet = Some ''/home/me/wallet.yaml''\<rparr>"
  have new: "WalrusClient_new [] ?ov ?penv = (\<lparr>config = 0\<rparr>, [?stored])"
    by (simp add: WalrusClient_new_def initial_config_def given_def or_else_def or_default_def truthy_opt_def)
  have at: "?stored = [?stored] ! config \<lparr>config = 0\<rparr>"
    by simp
  from WalrusClient_config_resolution [OF new at]
  have "snd (serve [?stored] \<lparr>config = 0\<rparr>
        [(offline, ReadResourceRequest ''walrus://config''),
         (offline, CallToolRequest ''delete_blob'' (JObj [(''blobId'', JStr ''abc'')]))])
         ! config \<lparr>config = 0\<rparr> = ?stored"
    by blast
  with new show ?thesis by simp
qed

text \<open>
  C7 as the spec states it gives the wallet path a hardcoded default as well, and has an
  explicit override win whenever it is given. The client built with no override in an empty
  environment has no wallet path at all; and an override that is given as the empty string
  loses to the environment variable.
\<close>

theorem config_resolution_counterexample:
  "wallet (snd (WalrusClient_new [] None []) ! config (fst (WalrusClient_new [] None []))) = None
   \<and> aggregatorUrl
        (snd (WalrusClient_new []
                (Some \<lparr>aggregatorUrl_given = Some [], publisherUrl_given = None,
                       systemObject_given = None, wallet_given = None\<rparr>)
                [(''WALRUS_AGGREGATOR_URL'', ''http://localhost:31415'')]) ! 0) =
       ''http://localhost:31415''"
  by (simp add: WalrusClient_new_def initial_config_def given_def or_else_def or_default_def
      truthy_opt_def)

text \<open>
  C8. For every identifier, the empty string included, \<^verbatim>\<open>deleteBlob\<close> returns (it
  never throws) the outcome whose \<open>success\<close> is false and whose \<open>message\<close> is the one
  fixed explanatory text.
\<close>

theorem deleteBlob_fixed_outcome:
  "deleteBlob bid =
     Inr \<lparr>success = False,
          message = ''Walrus blobs cannot be manually deleted. They will expire automatically based on their storage epochs.''\<rparr>
   \<and> deleteBlob [] = deleteBlob bid"
  by (simp add: deleteBlob_def)

text \<open>
  C9. \<^verbatim>\<open>getConfig\<close> returns a new object: its address is not that of the client's
  configuration object, and its fields are those of the client's configuration. Writing to
  the returned object leaves the client's configuration as it was; and whatever a caller
  does next (more calls of \<^verbatim>\<open>getConfig\<close>, writes to any of the objects it was given),
  the client's configuration is unchanged, the caller never holds its address, and the
  next \<^verbatim>\<open>getConfig\<close> returns an object with the same fields again.
\<close>

theorem getConfig_returns_copy:
  assumes "config c < length h"
  shows
    "\<exists>a h1. getConfig h c = (Inr a, h1)
       \<and> a \<noteq> config c
       \<and> h1 ! a = h ! config c
       \<and> (\<forall>v. (h1[a := v]) ! config c = h ! config c)
       \<and> (\<forall>steps hf held. run_caller c (CallGetConfig # steps) (h, []) = (hf, held) \<longrightarrow>
             hf ! config c = h ! config c
             \<and> config c \<notin> set held
             \<and> (\<exists>a2 h2. getConfig hf c = (Inr a2, h2) \<and> a2 \<noteq> config c \<and> h2 ! a2 = h ! config c))"
proof -
  let ?a = "length h"
  let ?h1 = "h @ [h ! config c]"
  have 1: "getConfig h c = (Inr ?a, ?h1)"
    by (rule getConfig_eq)
  have 2: "?a \<noteq> config c"
    using assms by simp
  have 3: "?h1 ! ?a = h ! config c"
    by simp
  have 4: "(?h1[?a := v]) ! config c = h ! config c" for v
    using assms by (simp add: nth_append)
  have 5: "hf ! config c = h ! config c \<and> config c \<notin> set held
             \<and> (\<exists>a2 h2. getConfig hf c = (Inr a2, h2) \<and> a2 \<noteq> config c \<and> h2 ! a2 = h ! config c)"
    if run: "run_caller c (CallGetConfig # steps) (h, []) = (hf, held)" for steps hf held
  proof -
    have none: "\<forall>a \<in> set ([] :: nat list). a < length h \<and> a \<noteq> config c"
      by simp
    from run_caller_invariant [OF assms none run]
    have alloc: "config c < length hf"
      and held: "\<forall>a \<in> set held. a < length hf \<and> a \<noteq> config c"
      and same: "hf ! config c = h ! config c"
      by simp_all
    from held have "config c \<notin> set held" by blast
    moreover have "getConfig hf c = (Inr (length hf), hf @ [hf ! config c])"
      by (rule getConfig_eq)
    moreover have "length hf \<noteq> config c"
      using alloc by simp
    moreover have "(hf @ [hf ! config c]) ! length hf = h ! config c"
      using same by simp
    ultimately show ?thesis
      using same by blast
  qed
  from 1 2 3 4 5 show ?thesis by blast
qed

theorem getConfig_returns_copy_witness:
  "config default_client < length default_heap
   \<and> getConfig default_heap default_client = (Inr 1, default_heap @ [default_heap ! 0])
   \<and> run_caller default_client
        [CallGetConfig,
         Mutate 0 \<lparr>aggregatorUrl = ''http://evil.example'', publisherUrl = ''http://evil.example'',
                   systemObject = ''0x0'', wallet = None\<rparr>,
         CallGetConfig]
        (default_heap, []) =
       ([default_heap ! 0,
         \<lparr>aggregatorUrl = ''http://evil.example'', publisherUrl = ''http://evil.example'',
          systemObject = ''0x0'', wallet = None\<rparr>,
         default_heap ! 0], [1, 2])
   \<and> (\<exists>a2 h2. getConfig
          [default_heap ! 0,
           \<lparr>aggregatorUrl = ''http://evil.example'', publisherUrl = ''http://evil.example'',
            systemObject = ''0x0'', wallet = None\<rparr>,
           default_heap ! 0] default_client = (Inr a2, h2)
        \<and> a2 \<noteq> config default_client \<and> h2 ! a2 = default_heap ! config default_client)"
proof -
  let ?evil = "\<lparr>aggregatorUrl = ''http://evil.example'', publisherUrl = ''http://evil.example'',
                   systemObject = ''0x0'', wallet = None\<rparr>"
  have alloc: "config default_client < length default_heap"
    by (simp add: default_client_eq default_heap_eq)
  have first: "getConfig default_heap default_client = (Inr 1, default_heap @ [default_heap ! 0])"
    by (simp add: getConfig_eq default_client_eq default_heap_eq)
  have run: "run_caller default_client [CallGetConfig, Mutate 0 ?evil, CallGetConfig] (default_heap, []) =
       ([default_heap ! 0, ?evil, default_heap ! 0], [1, 2])"
    by (simp add: getConfig_eq default_client_eq default_heap_eq)
  from getConfig_returns_copy [OF alloc] run
  have "\<exists>a2 h2. getConfig [default_heap ! 0, ?evil, default_heap ! 0] default_client = (Inr a2, h2)
        \<and> a2 \<noteq> config default_client \<and> h2 ! a2 = default_heap ! config default_client"
    by blast
  with alloc first run show ?thesis by blast
qed

text \<open>
  C10. The base64 branch of \<^verbatim>\<open>storeBlob\<close> cannot fail: for every string that does
  not start with \<^verbatim>\<open>/\<close>, \<^verbatim>\<open>./\<close> or \<^verbatim>\<open>../\<close> the payload is decoded to a byte
  buffer without an error, whatever the string holds (the decoding is that of the string
  with every character outside the alphabet removed, up to the first \<^verbatim>\<open>=\<close>), the
  write request is sent with that buffer, and the outcome of \<^verbatim>\<open>storeBlob\<close> is decided
  by the answer to the request alone. The malformed \<^verbatim>\<open>SG!V?sb G8\<close> is stored as
  \<^verbatim>\<open>Hello\<close>, and \<^verbatim>\<open>!!!\<close> as the empty buffer.
\<close>

theorem storeBlob_base64_total:
  "(\<not> is_file_path d \<longrightarrow>
      blobData e d = ([], Inr (base64_decode d))
      \<and> storeBlob h c e d epochs =
          ([HttpPut (publisherUrl (h ! config c) @ ''/v1/store'') (base64_decode d)
              (show_int (case epochs of None \<Rightarrow> 5 | Some n \<Rightarrow> n))],
           (case http_put e (publisherUrl (h ! config c) @ ''/v1/store'') (base64_decode d)
                   (show_int (case epochs of None \<Rightarrow> 5 | Some n \<Rightarrow> n)) of
              Inl x \<Rightarrow> Inl (storeBlob_catch x)
            | Inr r \<Rightarrow>
                (case from_reply (data r) of Inl x \<Rightarrow> Inl (storeBlob_catch x) | Inr v \<Rightarrow> Inr v))))
   \<and> base64_decode d =
       base64_decode (filter (\<lambda>ch. unbase64 ch \<noteq> None) (takeWhile (\<lambda>ch. ch \<noteq> CHR ''='') d))
   \<and> base64_decode ''SG!V?sb G8'' = bytes_of ''Hello''
   \<and> base64_decode ''!!!'' = []"
proof -
  have store: "storeBlob h c e d epochs =
          ([HttpPut (publisherUrl (h ! config c) @ ''/v1/store'') (base64_decode d)
              (show_int (case epochs of None \<Rightarrow> 5 | Some n \<Rightarrow> n))],
           (case http_put e (publisherUrl (h ! config c) @ ''/v1/store'') (base64_decode d)
                   (show_int (case epochs of None \<Rightarrow> 5 | Some n \<Rightarrow> n)) of
              Inl x \<Rightarrow> Inl (storeBlob_catch x)
            | Inr r \<Rightarrow>
                (case from_reply (data r) of Inl x \<Rightarrow> Inl (storeBlob_catch x) | Inr v \<Rightarrow> Inr v)))"
    if "\<not> is_file_path d"
    using that unfolding storeBlob_def storeBlob_try_def
    by (simp add: blobData_def Let_def split: sum.splits)
  have lenient: "base64_decode d =
       base64_decode (filter (\<lambda>ch. unbase64 ch \<noteq> None) (takeWhile (\<lambda>ch. ch \<noteq> CHR ''='') d))"
    unfolding base64_decode_def using sextets_lenient [of d] by simp
  have ex1: "base64_decode ''SG!V?sb G8'' = bytes_of ''Hello''"
    by (simp add: base64_decode_def bytes_of_def unbase64_def base64_table_def)
  have ex2: "base64_decode ''!!!'' = []"
    by (simp add: base64_decode_def unbase64_def base64_table_def)
  from store lenient ex1 ex2 show ?thesis
    by (simp add: blobData_def)
qed

theorem storeBlob_base64_total_witness:
  "\<not> is_file_path ''SG!V?sb G8''
   \<and> storeBlob default_heap default_client
        (publisher_answers (JObj [(''alreadyCertified'', JObj [(''blobId'', JStr ''abc'')])]))
        ''SG!V?sb G8'' None =
       ([HttpPut ''https://publisher-devnet.walrus.space/v1/store'' (bytes_of ''Hello'') ''5''],
        Inr \<lparr>blobId = JStr ''abc'', size' = JNum 0, encodedSize = JNum 0, storageId = JStr ''abc'',
             certified = True, certifiedEpoch = JUndefined, endEpoch = JUndefined\<rparr>)"
proof -
  let ?e = "publisher_answers (JObj [(''alreadyCertified'', JObj [(''blobId'', JStr ''abc'')])])"
  have no_path: "\<not> is_file_path ''SG!V?sb G8''"
    by (simp add: is_file_path_def startsWith_def)
  have reply: "from_reply (JObj [(''alreadyCertified'', JObj [(''blobId'', JStr ''abc'')])]) =
      Inr \<lparr>blobId = JStr ''abc'', size' = JNum 0, encodedSize = JNum 0, storageId = JStr ''abc'',
           certified = True, certifiedEpoch = JUndefined, endEpoch = JUndefined\<rparr>"
    by (simp add: from_reply_def from_alreadyCertified_def)
  have decoded: "base64_decode ''SG!V?sb G8'' = bytes_of ''Hello''"
    by (simp add: base64_decode_def bytes_of_def unbase64_def base64_table_def)
  from storeBlob_base64_total [of "''SG!V?sb G8''" ?e default_heap default_client None] no_path
  have "storeBlob default_heap default_client ?e ''SG!V?sb G8'' None =
          ([HttpPut (publisherUrl (default_heap ! config default_client) @ ''/v1/store'')
              (base64_decode ''SG!V?sb G8'') (show_int (case None of None \<Rightarrow> 5 | Some n \<Rightarrow> n))],
           (case http_put ?e (publisherUrl (default_heap ! config default_client) @ ''/v1/store'')
                   (base64_decode ''SG!V?sb G8'') (show_int (case None of None \<Rightarrow> 5 | Some n \<Rightarrow> n)) of
              Inl x \<Rightarrow> Inl (storeBlob_catch x)
            | Inr r \<Rightarrow>
                (case from_reply (data r) of Inl x \<Rightarrow> Inl (storeBlob_catch x) | Inr v \<Rightarrow> Inr v)))"
    by blast
  then have "storeBlob default_heap default_client ?e ''SG!V?sb G8'' None =
       ([HttpPut ''https://publisher-devnet.walrus.space/v1/store'' (bytes_of ''Hello'') ''5''],
        Inr \<lparr>blobId = JStr ''abc'', size' = JNum 0, encodedSize = JNum 0, storageId = JStr ''abc'',
             certified = True, certifiedEpoch = JUndefined, endEpoch = JUndefined\<rparr>)"
    by (simp add: default_heap_eq default_client_eq show_int_5 publisher_answers_put reply decoded)
  with no_path show ?thesis by blast
qed

end
